theory Spec2Isabelle
  imports Complex_Main
begin

section \<open>Python strings\<close>

text \<open>
  A Python \<open>str\<close> is a sequence of Unicode code points. A code point is a natural number
  here, so that the rupee sign of the price test (U+20B9) is one character, as it is in
  Python. \<open>py\<close> turns an ASCII literal into such a string.
\<close>

type_synonym pychar = nat
type_synonym pystr = "pychar list"

definition py :: "string \<Rightarrow> pystr" where
  "py s = map of_char s"

text \<open>\<open>str(n)\<close> and the \<open>{n}\<close> of an f-string, for an \<open>int\<close>: the decimal digits, with a
  minus sign on a negative number.\<close>

definition digit_char :: "nat \<Rightarrow> pychar" where
  "digit_char d = 48 + d"

function str_nat :: "nat \<Rightarrow> pystr" where
  "str_nat n = (if n < 10 then [digit_char n] else str_nat (n div 10) @ [digit_char (n mod 10)])"
  by pat_completeness auto
termination
  by (relation "measure id") auto

declare str_nat.simps [simp del]

definition str_int :: "int \<Rightarrow> pystr" where
  "str_int i = (if i < 0 then 45 # str_nat (nat (- i)) else str_nat (nat i))"

section \<open>The scraper object\<close>

text \<open>
  \<open>OLXScraper.__init__\<close> stores the base URL, the delay between pages (seconds) and the
  result list. The session and its headers are part of the environment (see below).
\<close>

record listing =
  title :: pystr
  price :: pystr
  location :: pystr
  url :: pystr
  image_url :: pystr

record scraper =
  base_url :: pystr
  delay :: rat
  results :: "listing list"

definition init_scraper :: "pystr \<Rightarrow> rat \<Rightarrow> scraper" where
  "init_scraper b d = \<lparr>base_url = b, delay = d, results = []\<rparr>"

definition default_base_url :: pystr where
  "default_base_url = py ''https://www.olx.in/items/q-car-cover''"

subsection \<open>\<open>get_page_url\<close>\<close>

definition get_page_url :: "scraper \<Rightarrow> int \<Rightarrow> pystr" where
  "get_page_url self page_num =
     (if page_num = 1 then base_url self
      else base_url self @ py ''?page='' @ str_int page_num)"

section \<open>The parsed document\<close>

text \<open>
  A page parsed by BeautifulSoup is a tree of tags and strings. An \<open>Element\<close> carries the
  tag's name, its attribute dictionary (as key/value pairs, one pair a key) and its
  contents; a \<open>Text\<close> is a plain \<open>NavigableString\<close>; a \<open>Comment\<close> is a string of one of
  the kinds the parser sets apart (a comment, a declaration, and the like): \<open>.string\<close>
  gives it as any other string, and \<open>get_text\<close> leaves it out. The \<open>BeautifulSoup\<close>
  object is the root element of the tree.
\<close>

datatype node = Text pystr | Comment pystr | Element pystr "(pystr \<times> pystr) list" "node list"

fun is_tag :: "node \<Rightarrow> bool" where
  "is_tag (Element n a cs) = True"
| "is_tag (Text s) = False"
| "is_tag (Comment s) = False"

fun tag_name :: "node \<Rightarrow> pystr" where
  "tag_name (Element n a cs) = n"
| "tag_name (Text s) = []"
| "tag_name (Comment s) = []"

text \<open>\<open>tag.get(key)\<close>: the attribute's value, or \<open>None\<close>.\<close>

fun get_attr :: "node \<Rightarrow> pystr \<Rightarrow> pystr option" where
  "get_attr (Element n a cs) k = map_of a k"
| "get_attr (Text s) k = None"
| "get_attr (Comment s) k = None"

text \<open>\<open>tag.descendants\<close>: everything below the tag, in document order, the tag itself
  excluded.\<close>

fun descendants :: "node \<Rightarrow> node list" where
  "descendants (Text s) = []"
| "descendants (Comment s) = []"
| "descendants (Element n a cs) = concat (map (\<lambda>c. c # descendants c) cs)"

text \<open>\<open>str.isspace\<close> for one character, and \<open>str.strip()\<close>.\<close>

definition isspace :: "pychar \<Rightarrow> bool" where
  "isspace c \<longleftrightarrow>
     c \<in> set [9, 10, 11, 12, 13, 28, 29, 30, 31, 32, 133, 160, 5760, 8232, 8233, 8239, 8287, 12288]
     \<or> (8192 \<le> c \<and> c \<le> 8202)"

definition strip :: "pystr \<Rightarrow> pystr" where
  "strip s = rev (dropWhile isspace (rev (dropWhile isspace s)))"

text \<open>
  \<open>tag.get_text(strip=True)\<close>: every plain string below the tag is stripped, the empty
  ones are left out, and the rest are joined with the empty separator.
\<close>

fun node_strings :: "node list \<Rightarrow> pystr list" where
  "node_strings [] = []"
| "node_strings (Text s # ns) = s # node_strings ns"
| "node_strings (Comment s # ns) = node_strings ns"
| "node_strings (Element n a cs # ns) = node_strings ns"

definition get_text_strip :: "node \<Rightarrow> pystr" where
  "get_text_strip tag =
     concat (filter (\<lambda>s. length s \<noteq> 0) (map strip (node_strings (descendants tag))))"

text \<open>
  \<open>tag.string\<close>: the only child when it is a string, the \<open>.string\<close> of the only child
  when it is a tag, and \<open>None\<close> for a tag with no child or with several.
\<close>

fun tag_string :: "node \<Rightarrow> pystr option" where
  "tag_string (Element n a [Text s]) = Some s"
| "tag_string (Element n a [Comment s]) = Some s"
| "tag_string (Element n a [Element n' a' cs]) = tag_string (Element n' a' cs)"
| "tag_string (Element n a cs) = None"
| "tag_string (Text s) = Some s"
| "tag_string (Comment s) = Some s"

section \<open>The environment\<close>

text \<open>
  What the libraries and the network decide is a parameter of the model:
  \<^item> \<open>css_match sel tag\<close>: whether the tag matches the CSS selector (soupsieve);
  \<^item> \<open>isdigit\<close>: \<open>str.isdigit\<close> for one character, \<open>lower\<close>: \<open>str.lower\<close> (the Unicode
    tables);
  \<^item> \<open>urljoin\<close>: \<open>urllib.parse.urljoin\<close>, which raises \<open>ValueError\<close> on some malformed
    references;
  \<^item> \<open>session_get\<close>: the GET of the session (headers and timeout are the session's), a
    response or an exception;
  \<^item> \<open>html_parser\<close>: \<open>BeautifulSoup(content, 'html.parser')\<close>, a document or an exception;
  \<^item> \<open>sleep_max\<close>: the longest delay \<open>time.sleep\<close> can represent on the platform.
  Output on the console is not modelled.
\<close>

datatype pyerror = RequestException | ValueError | OverflowError | OSError | OtherException

record response =
  status_code :: int
  content :: "nat list"

record env =
  css_match :: "pystr \<Rightarrow> node \<Rightarrow> bool"
  isdigit :: "pychar \<Rightarrow> bool"
  lower :: "pystr \<Rightarrow> pystr"
  urljoin :: "pystr \<Rightarrow> pystr \<Rightarrow> pyerror + pystr"
  session_get :: "pystr \<Rightarrow> pyerror + response"
  html_parser :: "nat list \<Rightarrow> pyerror + node"
  sleep_max :: rat

text \<open>\<open>tag.select(selector)\<close>: the descendants that are tags and match, in document order;
  \<open>tag.select_one(selector)\<close>: the first of them, or \<open>None\<close>.\<close>

definition select :: "env \<Rightarrow> node \<Rightarrow> pystr \<Rightarrow> node list" where
  "select env tag selector =
     filter (\<lambda>el. is_tag el \<and> css_match env selector el) (descendants tag)"

definition select_one :: "env \<Rightarrow> node \<Rightarrow> pystr \<Rightarrow> node option" where
  "select_one env tag selector =
     (case select env tag selector of [] \<Rightarrow> None | el # _ \<Rightarrow> Some el)"

text \<open>\<open>tag.find('a', href=True)\<close> and \<open>tag.find('img')\<close>: the first descendant tag of that
  name (with the attribute present).\<close>

definition find_a_href :: "node \<Rightarrow> node option" where
  "find_a_href tag =
     find (\<lambda>el. is_tag el \<and> tag_name el = py ''a'' \<and> get_attr el (py ''href'') \<noteq> None)
       (descendants tag)"

definition find_img :: "node \<Rightarrow> node option" where
  "find_img tag = find (\<lambda>el. is_tag el \<and> tag_name el = py ''img'') (descendants tag)"

text \<open>\<open>response.raise_for_status()\<close> raises \<open>HTTPError\<close>, a \<open>RequestException\<close>, on a
  status from 400 to 599.\<close>

definition raise_for_status :: "response \<Rightarrow> pyerror + unit" where
  "raise_for_status r =
     (if 400 \<le> status_code r \<and> status_code r < 600 then Inl RequestException else Inr ())"

text \<open>\<open>time.sleep(secs)\<close> raises \<open>ValueError\<close> on a negative length and \<open>OverflowError\<close>
  on one too long for the platform's clock.\<close>

definition time_sleep :: "env \<Rightarrow> rat \<Rightarrow> pyerror + unit" where
  "time_sleep env secs =
     (if secs < 0 then Inl ValueError
      else if sleep_max env < secs then Inl OverflowError
      else Inr ())"

section \<open>\<open>extract_item_data\<close>\<close>

definition sentinel :: pystr where
  "sentinel = py ''N/A''"

definition rupee :: pychar where
  "rupee = 8377"

definition title_selectors :: "pystr list" where
  \<open>title_selectors = [py ''h6'', py ''[data-aut-id="itemTitle"]'', py ''.title'', py ''h6._2caa7'']\<close>

definition price_selectors :: "pystr list" where
  \<open>price_selectors =
     [py ''span._2b6f3'', py ''[data-aut-id="itemPrice"]'', py ''.price'', py ''span[class*="price"]'']\<close>

definition location_selectors :: "pystr list" where
  \<open>location_selectors = [py ''span._2e28f'', py ''[data-aut-id="item-location"]'', py ''.location'']\<close>

text \<open>The title loop and the location loop: the first selector that finds an element
  decides, whatever its text.\<close>

fun first_text :: "env \<Rightarrow> node \<Rightarrow> pystr list \<Rightarrow> pystr option" where
  "first_text env item_card [] = None"
| "first_text env item_card (selector # rest) =
     (case select_one env item_card selector of
        Some elem \<Rightarrow> Some (get_text_strip elem)
      | None \<Rightarrow> first_text env item_card rest)"

text \<open>The price test of line 58, and the price loop: an element whose text fails the
  test does not end the loop.\<close>

definition price_like :: "env \<Rightarrow> pystr \<Rightarrow> bool" where
  "price_like env price_text \<longleftrightarrow>
     rupee \<in> set price_text \<or> list_ex (isdigit env) price_text"

fun first_price :: "env \<Rightarrow> node \<Rightarrow> pystr list \<Rightarrow> pystr option" where
  "first_price env item_card [] = None"
| "first_price env item_card (selector # rest) =
     (case select_one env item_card selector of
        Some price_elem \<Rightarrow>
          (let price_text = get_text_strip price_elem
           in if price_like env price_text then Some price_text
              else first_price env item_card rest)
      | None \<Rightarrow> first_price env item_card rest)"

definition startswith :: "pystr \<Rightarrow> pystr \<Rightarrow> bool" where
  "startswith s p \<longleftrightarrow> take (length p) s = p"

definition olx_origin :: pystr where
  "olx_origin = py ''https://www.olx.in''"

text \<open>Lines 72 to 76: no anchor gives \<open>None\<close>; \<open>urljoin\<close> may raise.\<close>

definition extract_url :: "env \<Rightarrow> node \<Rightarrow> pyerror + pystr option" where
  "extract_url env item_card =
     (case find_a_href item_card of
        None \<Rightarrow> Inr None
      | Some link_elem \<Rightarrow>
          (case get_attr link_elem (py ''href'') of
             None \<Rightarrow> Inr None
           | Some href \<Rightarrow>
               if \<not> startswith href (py ''http'')
               then (case urljoin env olx_origin href of
                       Inl e \<Rightarrow> Inl e
                     | Inr u \<Rightarrow> Inr (Some u))
               else Inr (Some href)))"

text \<open>Lines 79 to 82: the \<open>src\<close> of the first image, when it has one that is not empty.\<close>

definition extract_image_url :: "node \<Rightarrow> pystr option" where
  "extract_image_url item_card =
     (case find_img item_card of
        None \<Rightarrow> None
      | Some img_elem \<Rightarrow>
          (case get_attr img_elem (py ''src'') of
             None \<Rightarrow> None
           | Some src \<Rightarrow> if src = [] then None else Some src))"

text \<open>\<open>x or 'N/A'\<close>: \<open>None\<close> and the empty string are both false.\<close>

definition or_sentinel :: "pystr option \<Rightarrow> pystr" where
  "or_sentinel v = (case v of None \<Rightarrow> sentinel | Some s \<Rightarrow> if s = [] then sentinel else s)"

text \<open>The whole body is inside \<open>try\<close>: an exception gives \<open>None\<close>.\<close>

definition extract_item_data :: "env \<Rightarrow> node \<Rightarrow> listing option" where
  "extract_item_data env item_card =
     (let title' = first_text env item_card title_selectors;
          price' = first_price env item_card price_selectors;
          location' = first_text env item_card location_selectors
      in case extract_url env item_card of
           Inl e \<Rightarrow> None
         | Inr url' \<Rightarrow>
             Some \<lparr>title = or_sentinel title',
                   price = or_sentinel price',
                   location = or_sentinel location',
                   url = or_sentinel url',
                   image_url = or_sentinel (extract_image_url item_card)\<rparr>)"

section \<open>\<open>scrape_page\<close>\<close>

definition card_selectors :: "pystr list" where
  \<open>card_selectors =
     [py ''[data-aut-id="itemBox"]'', py ''li.EIR5N'', py ''div._2fp1f'', py ''.item-card'',
      py ''[class*="item"]'']\<close>

text \<open>
  Lines 117 to 123. The loop asks the document one selector at a time; the function
  returns the items found and the selectors it has asked, in the order of the asking.
\<close>

fun select_cards :: "env \<Rightarrow> node \<Rightarrow> pystr list \<Rightarrow> node list \<times> pystr list" where
  "select_cards env soup [] = ([], [])"
| "select_cards env soup (selector # rest) =
     (let items = select env soup selector
      in if items \<noteq> [] then (items, [selector])
         else (case select_cards env soup rest of (found, asked) \<Rightarrow> (found, selector # asked)))"

text \<open>\<open>sub in s\<close> for strings.\<close>

fun contains :: "pystr \<Rightarrow> pystr \<Rightarrow> bool" where
  "contains [] sub \<longleftrightarrow> sub = []"
| "contains (c # cs) sub \<longleftrightarrow> startswith (c # cs) sub \<or> contains cs sub"

text \<open>The \<open>lambda\<close> of line 128, called with the \<open>.string\<close> of a tag.\<close>

definition car_text :: "env \<Rightarrow> pystr option \<Rightarrow> bool" where
  "car_text env text \<longleftrightarrow>
     (case text of None \<Rightarrow> False | Some t \<Rightarrow> t \<noteq> [] \<and> contains (lower env t) (py ''car''))"

text \<open>\<open>soup.find_all(['div', 'li'], string=...)\<close>: the \<open>div\<close> and \<open>li\<close> tags of the document
  whose \<open>.string\<close> passes the test.\<close>

definition find_all_car :: "env \<Rightarrow> node \<Rightarrow> node list" where
  "find_all_car env soup =
     filter (\<lambda>el. is_tag el \<and> tag_name el \<in> set [py ''div'', py ''li'']
                  \<and> car_text env (tag_string el))
       (descendants soup)"

text \<open>Lines 109 to 128: the items of a page.\<close>

definition items_found :: "env \<Rightarrow> node \<Rightarrow> node list" where
  "items_found env soup =
     (let found = fst (select_cards env soup card_selectors)
      in if found = [] then find_all_car env soup else found)"

text \<open>Lines 130 to 134.\<close>

fun page_results :: "env \<Rightarrow> node list \<Rightarrow> listing list" where
  "page_results env [] = []"
| "page_results env (item_card # rest) =
     (case extract_item_data env item_card of
        None \<Rightarrow> page_results env rest
      | Some item_data \<Rightarrow>
          if title item_data \<noteq> sentinel then item_data # page_results env rest
          else page_results env rest)"

text \<open>Lines 103 to 106: the request, the status check and the parse; each may raise.\<close>

definition fetch_soup :: "env \<Rightarrow> pystr \<Rightarrow> pyerror + node" where
  "fetch_soup env u =
     (case session_get env u of
        Inl e \<Rightarrow> Inl e
      | Inr resp \<Rightarrow>
          (case raise_for_status resp of
             Inl e \<Rightarrow> Inl e
           | Inr _ \<Rightarrow> html_parser env (content resp)))"

text \<open>
  What the run does to the world is a list of events: a request sent, a sleep done.
  \<open>scrape_page\<close> returns the page's records and the events so far. Both \<open>except\<close>
  clauses return the empty list.
\<close>

datatype event = Requested pystr | Slept rat

definition scrape_page :: "env \<Rightarrow> scraper \<Rightarrow> int \<Rightarrow> event list \<Rightarrow> listing list \<times> event list" where
  "scrape_page env self page_num evs =
     (let u = get_page_url self page_num;
          evs' = evs @ [Requested u]
      in case fetch_soup env u of
           Inl RequestException \<Rightarrow> ([], evs')
         | Inl e \<Rightarrow> ([], evs')
         | Inr soup \<Rightarrow> (page_results env (items_found env soup), evs'))"

section \<open>\<open>scrape_multiple_pages\<close>\<close>

text \<open>
  The body of the \<open>for\<close> loop over \<open>range(1, max_pages + 1)\<close>, page by page. Nothing
  catches what \<open>time.sleep\<close> raises: the run ends there.
\<close>

fun pages_loop ::
  "env \<Rightarrow> scraper \<Rightarrow> int \<Rightarrow> int list \<Rightarrow> listing list \<Rightarrow> event list
     \<Rightarrow> (pyerror + listing list) \<times> event list" where
  "pages_loop env self max_pages [] all_results evs = (Inr all_results, evs)"
| "pages_loop env self max_pages (page # rest) all_results evs =
     (case scrape_page env self page evs of
        (rs, evs1) \<Rightarrow>
          if page < max_pages then
            (case time_sleep env (delay self) of
               Inl e \<Rightarrow> (Inl e, evs1)
             | Inr _ \<Rightarrow>
                 pages_loop env self max_pages rest (all_results @ rs) (evs1 @ [Slept (delay self)]))
          else pages_loop env self max_pages rest (all_results @ rs) evs1)"

text \<open>The outcome (the list returned, or the exception), the scraper, with \<open>results\<close> set
  when the loop has ended, and the events.\<close>

definition scrape_multiple_pages ::
  "env \<Rightarrow> scraper \<Rightarrow> int \<Rightarrow> event list \<Rightarrow> (pyerror + listing list) \<times> scraper \<times> event list" where
  "scrape_multiple_pages env self max_pages evs =
     (case pages_loop env self max_pages [1..max_pages] [] evs of
        (Inl e, evs') \<Rightarrow> (Inl e, self, evs')
      | (Inr all_results, evs') \<Rightarrow> (Inr all_results, self\<lparr>results := all_results\<rparr>, evs'))"

section \<open>The exporters\<close>

text \<open>
  The file system is a map from path strings, taken literally, to directories and files
  (a file is its text). \<open>makedirs\<close> is \<open>os.makedirs(path, exist_ok=True)\<close> for a path of
  one component, \<open>path_join\<close> is \<open>os.path.join\<close> on POSIX, and \<open>open_write\<close> is the
  \<open>with open(filepath, 'w', ...)\<close> block once its text is known: the file's directory has
  to exist, and the path must not be a directory (as one that ends in a slash is).
\<close>

datatype fs_entry = Dir | File pystr

type_synonym filesystem = "pystr \<Rightarrow> fs_entry option"

definition makedirs :: "filesystem \<Rightarrow> pystr \<Rightarrow> pyerror + filesystem" where
  "makedirs fs path =
     (case fs path of
        None \<Rightarrow> Inr (fs(path \<mapsto> Dir))
      | Some Dir \<Rightarrow> Inr fs
      | Some (File t) \<Rightarrow> Inl OSError)"

definition path_join :: "pystr \<Rightarrow> pystr \<Rightarrow> pystr" where
  "path_join a b =
     (if startswith b (py ''/'') then b
      else if a = [] \<or> last a = 47 then a @ b
      else a @ py ''/'' @ b)"

text \<open>\<open>os.path.dirname\<close>: up to the last slash, without trailing slashes unless it is all
  slashes.\<close>

definition dirname :: "pystr \<Rightarrow> pystr" where
  "dirname p =
     (let head = rev (dropWhile (\<lambda>c. c \<noteq> 47) (rev p))
      in if head \<noteq> [] \<and> \<not> list_all (\<lambda>c. c = 47) head
         then rev (dropWhile (\<lambda>c. c = 47) (rev head)) else head)"

definition open_write :: "filesystem \<Rightarrow> pystr \<Rightarrow> pystr \<Rightarrow> pyerror + filesystem" where
  "open_write fs filepath text =
     (if fs filepath = Some Dir \<or> filepath = [] \<or> last filepath = 47 then Inl OSError
      else if dirname filepath \<noteq> [] \<and> \<not> list_all (\<lambda>c. c = 47) (dirname filepath)
              \<and> fs (dirname filepath) \<noteq> Some Dir then Inl OSError
      else Inr (fs(filepath \<mapsto> File text)))"

fun join :: "pystr \<Rightarrow> pystr list \<Rightarrow> pystr" where
  "join sep [] = []"
| "join sep [x] = x"
| "join sep (x # y # ys) = x @ sep @ join sep (y # ys)"

text \<open>
  \<open>csv.DictWriter\<close> with the default dialect: a field holding a comma, a double quote, a
  carriage return or a line feed is put in double quotes, with its double quotes doubled;
  a row ends with CR LF.
\<close>

definition csv_field :: "pystr \<Rightarrow> pystr" where
  "csv_field s =
     (if list_ex (\<lambda>c. c \<in> set [44, 34, 13, 10]) s
      then [34] @ concat (map (\<lambda>c. if c = 34 then [34, 34] else [c]) s) @ [34]
      else s)"

definition csv_row :: "pystr list \<Rightarrow> pystr" where
  "csv_row vals = join (py '','') (map csv_field vals) @ [13, 10]"

definition fieldnames :: "pystr list" where
  "fieldnames = [py ''title'', py ''price'', py ''location'', py ''url'', py ''image_url'']"

definition item_values :: "listing \<Rightarrow> pystr list" where
  "item_values item = [title item, price item, location item, url item, image_url item]"

definition csv_text :: "listing list \<Rightarrow> pystr" where
  "csv_text items = csv_row fieldnames @ concat (map (\<lambda>item. csv_row (item_values item)) items)"

definition save_to_csv ::
  "scraper \<Rightarrow> pystr \<Rightarrow> filesystem \<Rightarrow> pyerror + pystr option \<times> filesystem" where
  "save_to_csv self filename fs =
     (if results self = [] then Inr (None, fs)
      else case makedirs fs (py ''output'') of
             Inl e \<Rightarrow> Inl e
           | Inr fs1 \<Rightarrow>
               (let filepath = path_join (py ''output'') filename
                in case open_write fs1 filepath (csv_text (results self)) of
                     Inl e \<Rightarrow> Inl e
                   | Inr fs2 \<Rightarrow> Inr (Some filepath, fs2)))"

text \<open>
  \<open>json.dump(self.results, jsonfile, indent=2, ensure_ascii=False)\<close>: a string is put in
  double quotes; the double quote, the backslash and the control characters below U+0020
  are escaped, and nothing else is.
\<close>

definition hex_digit :: "nat \<Rightarrow> pychar" where
  "hex_digit d = (if d < 10 then 48 + d else 87 + d)"

definition json_escape :: "pychar \<Rightarrow> pystr" where
  "json_escape c =
     (if c = 34 then [92, 34]
      else if c = 92 then [92, 92]
      else if c = 10 then [92, 110]
      else if c = 13 then [92, 114]
      else if c = 9 then [92, 116]
      else if c = 8 then [92, 98]
      else if c = 12 then [92, 102]
      else if c < 32 then [92, 117, 48, 48, hex_digit (c div 16), hex_digit (c mod 16)]
      else [c])"

definition json_string :: "pystr \<Rightarrow> pystr" where
  "json_string s = [34] @ concat (map json_escape s) @ [34]"

definition newline_indent :: "nat \<Rightarrow> pystr" where
  "newline_indent level = 10 # replicate (2 * level) 32"

definition json_object :: "listing \<Rightarrow> pystr" where
  "json_object item =
     py ''{'' @ newline_indent 2
     @ join (py '','' @ newline_indent 2)
         (map (\<lambda>(k, v). json_string k @ py '': '' @ json_string v)
            (zip fieldnames (item_values item)))
     @ newline_indent 1 @ py ''}''"

definition json_text :: "listing list \<Rightarrow> pystr" where
  "json_text items =
     (if items = [] then py ''[]''
      else py ''['' @ newline_indent 1
           @ join (py '','' @ newline_indent 1) (map json_object items)
           @ newline_indent 0 @ py '']'')"

definition save_to_json ::
  "scraper \<Rightarrow> pystr \<Rightarrow> filesystem \<Rightarrow> pyerror + pystr option \<times> filesystem" where
  "save_to_json self filename fs =
     (if results self = [] then Inr (None, fs)
      else case makedirs fs (py ''output'') of
             Inl e \<Rightarrow> Inl e
           | Inr fs1 \<Rightarrow>
               (let filepath = path_join (py ''output'') filename
                in case open_write fs1 filepath (json_text (results self)) of
                     Inl e \<Rightarrow> Inl e
                   | Inr fs2 \<Rightarrow> Inr (Some filepath, fs2)))"

section \<open>A sample environment\<close>

text \<open>
  One environment to run the model in: a matcher that knows the sixteen selectors of the
  program (by tag name, class and attribute, as CSS reads them), ASCII digits and ASCII
  lower case, \<open>urljoin\<close> for the simple references and for one that \<open>urllib\<close> rejects,
  and a site of four pages: the second answers 404, and the fourth answers 302 with the
  body of the first. \<open>page_classes\<close> is a
  document of its own, with cards marked by class only.
\<close>

fun split_ws_from :: "pystr \<Rightarrow> pystr \<Rightarrow> pystr list" where
  "split_ws_from cur [] = (if cur = [] then [] else [cur])"
| "split_ws_from cur (c # cs) =
     (if isspace c then (if cur = [] then split_ws_from [] cs else cur # split_ws_from [] cs)
      else split_ws_from (cur @ [c]) cs)"

definition has_class :: "string \<Rightarrow> node \<Rightarrow> bool" where
  "has_class c el \<longleftrightarrow>
     (case get_attr el (py ''class'') of None \<Rightarrow> False | Some v \<Rightarrow> py c \<in> set (split_ws_from [] v))"

definition attr_equals :: "string \<Rightarrow> string \<Rightarrow> node \<Rightarrow> bool" where
  "attr_equals k v el \<longleftrightarrow> get_attr el (py k) = Some (py v)"

definition attr_contains :: "string \<Rightarrow> string \<Rightarrow> node \<Rightarrow> bool" where
  "attr_contains k v el \<longleftrightarrow>
     (case get_attr el (py k) of None \<Rightarrow> False | Some x \<Rightarrow> contains x (py v))"

definition named :: "string \<Rightarrow> node \<Rightarrow> bool" where
  "named n el \<longleftrightarrow> tag_name el = py n"

definition demo_css_match :: "pystr \<Rightarrow> node \<Rightarrow> bool" where
  \<open>demo_css_match selector el \<longleftrightarrow>
     (if selector = py ''h6'' then named ''h6'' el
      else if selector = py ''[data-aut-id="itemTitle"]'' then attr_equals ''data-aut-id'' ''itemTitle'' el
      else if selector = py ''.title'' then has_class ''title'' el
      else if selector = py ''h6._2caa7'' then named ''h6'' el \<and> has_class ''_2caa7'' el
      else if selector = py ''span._2b6f3'' then named ''span'' el \<and> has_class ''_2b6f3'' el
      else if selector = py ''[data-aut-id="itemPrice"]'' then attr_equals ''data-aut-id'' ''itemPrice'' el
      else if selector = py ''.price'' then has_class ''price'' el
      else if selector = py ''span[class*="price"]'' then named ''span'' el \<and> attr_contains ''class'' ''price'' el
      else if selector = py ''span._2e28f'' then named ''span'' el \<and> has_class ''_2e28f'' el
      else if selector = py ''[data-aut-id="item-location"]'' then attr_equals ''data-aut-id'' ''item-location'' el
      else if selector = py ''.location'' then has_class ''location'' el
      else if selector = py ''[data-aut-id="itemBox"]'' then attr_equals ''data-aut-id'' ''itemBox'' el
      else if selector = py ''li.EIR5N'' then named ''li'' el \<and> has_class ''EIR5N'' el
      else if selector = py ''div._2fp1f'' then named ''div'' el \<and> has_class ''_2fp1f'' el
      else if selector = py ''.item-card'' then has_class ''item-card'' el
      else if selector = py ''[class*="item"]'' then attr_contains ''class'' ''item'' el
      else False)\<close>

definition demo_isdigit :: "pychar \<Rightarrow> bool" where
  "demo_isdigit c \<longleftrightarrow> 48 \<le> c \<and> c \<le> 57"

definition demo_lower :: "pystr \<Rightarrow> pystr" where
  "demo_lower s = map (\<lambda>c. if 65 \<le> c \<and> c \<le> 90 then c + 32 else c) s"

definition demo_urljoin :: "pystr \<Rightarrow> pystr \<Rightarrow> pyerror + pystr" where
  "demo_urljoin base ref =
     (if startswith ref (py ''//['') \<and> 93 \<notin> set ref then Inl ValueError
      else if ref = [] then Inr base
      else if startswith ref (py ''//'') then Inr (py ''https:'' @ ref)
      else if startswith ref (py ''/'') then Inr (base @ ref)
      else Inr (base @ py ''/'' @ ref))"

definition tag :: "string \<Rightarrow> (string \<times> string) list \<Rightarrow> node list \<Rightarrow> node" where
  "tag n a cs = Element (py n) (map (\<lambda>(k, v). (py k, py v)) a) cs"

definition card_full :: node where
  "card_full =
     tag ''li'' [(''data-aut-id'', ''itemBox'')]
       [tag ''a'' [(''href'', ''/item/cover-1'')]
          [tag ''img'' [(''src'', ''https://img.example/1.jpg'')] [],
           tag ''span'' [(''data-aut-id'', ''itemTitle'')] [Text (py ''Car body cover'')],
           tag ''span'' [(''class'', ''_2b6f3'')] [Text (py ''Negotiable'')],
           tag ''span'' [(''data-aut-id'', ''itemPrice'')] [Text (rupee # py '' 500'')],
           tag ''span'' [(''data-aut-id'', ''item-location'')] [Text (py '' Pune '')]]]"

definition card_untitled :: node where
  "card_untitled =
     tag ''li'' [(''data-aut-id'', ''itemBox'')]
       [tag ''a'' [(''href'', ''https://www.olx.in/item/cover-2'')]
          [tag ''span'' [(''class'', ''price'')] [Text (py ''1200'')]]]"

definition card_blank_title :: node where
  "card_blank_title =
     tag ''li'' [(''data-aut-id'', ''itemBox'')]
       [tag ''h6'' [] [Text (py ''  '')],
        tag ''span'' [(''data-aut-id'', ''itemTitle'')] [Text (py ''Seat cover'')]]"

definition card_bad_link :: node where
  "card_bad_link =
     tag ''li'' [(''data-aut-id'', ''itemBox'')]
       [tag ''h6'' [] [Text (py ''Cover'')], tag ''a'' [(''href'', ''//[bad'')] []]"

definition card_dollar :: node where
  "card_dollar =
     tag ''li'' [(''data-aut-id'', ''itemBox'')]
       [tag ''h6'' [] [Text (py ''Cover'')],
        tag ''span'' [(''class'', ''price'')] [Text (py ''$ call'')]]"

definition card_http_path :: node where
  "card_http_path =
     tag ''li'' [(''data-aut-id'', ''itemBox'')]
       [tag ''h6'' [] [Text (py ''Cover'')], tag ''a'' [(''href'', ''httpd/x'')] []]"

definition page_one :: node where
  "page_one = tag ''[document]'' [] [tag ''ul'' [] [card_full, card_untitled, card_bad_link]]"

definition page_classes :: node where
  "page_classes =
     tag ''[document]'' []
       [tag ''div'' [(''class'', ''item-card wide'')] [tag ''h6'' [] [Text (py ''Bike cover'')]],
        tag ''span'' [(''class'', ''item-note'')] [Text (py ''new'')]]"

definition page_three :: node where
  "page_three =
     tag ''[document]'' []
       [tag ''div'' [] [tag ''p'' [] [Text (py ''Used CAR covers'')]],
        tag ''div'' [] [tag ''h6'' [] [Text (py ''Bike cover'')], Text (py ''car'')],
        tag ''div'' [] [Text (py ''Used truck'')]]"

definition demo_session_get :: "pystr \<Rightarrow> pyerror + response" where
  "demo_session_get u =
     (if u = default_base_url then Inr \<lparr>status_code = 200, content = [1]\<rparr>
      else if u = default_base_url @ py ''?page=2'' then Inr \<lparr>status_code = 404, content = []\<rparr>
      else if u = default_base_url @ py ''?page=3'' then Inr \<lparr>status_code = 200, content = [3]\<rparr>
      else if u = default_base_url @ py ''?page=4'' then Inr \<lparr>status_code = 302, content = [1]\<rparr>
      else Inl RequestException)"

definition demo_html_parser :: "nat list \<Rightarrow> pyerror + node" where
  "demo_html_parser c =
     (if c = [1] then Inr page_one
      else if c = [3] then Inr page_three
      else Inr (tag ''[document]'' [] []))"

definition demo_env :: env where
  "demo_env =
     \<lparr>css_match = demo_css_match, isdigit = demo_isdigit, lower = demo_lower,
      urljoin = demo_urljoin, session_get = demo_session_get, html_parser = demo_html_parser,
      sleep_max = 1000000\<rparr>"

definition demo_scraper :: scraper where
  "demo_scraper = init_scraper default_base_url (3 / 2)"

text \<open>The value of a decimal numeral, to tell the page numbers in the URLs apart.\<close>

definition val_nat :: "pystr \<Rightarrow> nat" where
  "val_nat s = foldl (\<lambda>a c. 10 * a + (c - 48)) 0 s"

text \<open>The records the sample site gives, and a scraper with a negative delay.\<close>

definition listing_full :: listing where
  "listing_full =
     \<lparr>title = py ''Car body cover'', price = rupee # py '' 500'', location = py ''Pune'',
      url = py ''https://www.olx.in/item/cover-1'', image_url = py ''https://img.example/1.jpg''\<rparr>"

definition listing_untitled :: listing where
  "listing_untitled =
     \<lparr>title = sentinel, price = py ''1200'', location = sentinel,
      url = py ''https://www.olx.in/item/cover-2'', image_url = sentinel\<rparr>"

definition listing_http_path :: listing where
  "listing_http_path =
     \<lparr>title = py ''Cover'', price = sentinel, location = sentinel,
      url = py ''httpd/x'', image_url = sentinel\<rparr>"

definition listing_dollar :: listing where
  "listing_dollar =
     \<lparr>title = py ''Cover'', price = sentinel, location = sentinel, url = sentinel,
      image_url = sentinel\<rparr>"

definition listing_blank :: listing where
  "listing_blank =
     \<lparr>title = sentinel, price = sentinel, location = sentinel, url = sentinel,
      image_url = sentinel\<rparr>"

definition hasty_scraper :: scraper where
  "hasty_scraper = init_scraper default_base_url (- 1)"

section \<open>Notions used to state the properties\<close>

text \<open>The records of one page, as \<open>scrape_page\<close> returns them, and the events of one turn
  of the loop of \<open>scrape_multiple_pages\<close>.\<close>

definition page_records :: "env \<Rightarrow> scraper \<Rightarrow> int \<Rightarrow> listing list" where
  "page_records env self page = fst (scrape_page env self page [])"

definition page_events :: "scraper \<Rightarrow> int \<Rightarrow> int \<Rightarrow> event list" where
  "page_events self max_pages page =
     Requested (get_page_url self page) # (if page < max_pages then [Slept (delay self)] else [])"

text \<open>
  The specification's word "absolute", read as RFC 3986 reads it: a reference is absolute
  when it begins with a scheme (a letter, then letters, digits, plus, minus or dot) and a
  colon. The program does not use this test; it is here to compare the program with.
\<close>

definition ascii_alpha :: "pychar \<Rightarrow> bool" where
  "ascii_alpha c \<longleftrightarrow> (65 \<le> c \<and> c \<le> 90) \<or> (97 \<le> c \<and> c \<le> 122)"

definition spec_absolute_url :: "pystr \<Rightarrow> bool" where
  "spec_absolute_url s \<longleftrightarrow>
     (let scheme = takeWhile (\<lambda>c. c \<noteq> 58) s
      in length scheme < length s \<and> scheme \<noteq> [] \<and> ascii_alpha (hd scheme)
         \<and> list_all (\<lambda>c. ascii_alpha c \<or> (48 \<le> c \<and> c \<le> 57) \<or> c \<in> set [43, 45, 46]) scheme)"

text \<open>
  The specification's words "currency symbol", read as Unicode reads them: the dollar
  sign, the signs from cent to yen, and the block of currency symbols from U+20A0, in
  which the rupee sign lies. The program tests for the rupee sign alone.
\<close>

definition spec_currency_symbol :: "pychar \<Rightarrow> bool" where
  "spec_currency_symbol c \<longleftrightarrow> c = 36 \<or> (162 \<le> c \<and> c \<le> 165) \<or> (8352 \<le> c \<and> c \<le> 8399)"

text \<open>
  The specification's words "non-success status", read as it reads them elsewhere
  ("non-2xx"): a status outside 200 to 299. The program leaves the test to
  \<open>raise_for_status\<close>.
\<close>

definition spec_success_status :: "int \<Rightarrow> bool" where
  "spec_success_status code \<longleftrightarrow> 200 \<le> code \<and> code < 300"

section \<open>Lemmas on the numerals and the loops\<close>

lemma val_nat_snoc: "val_nat (s @ [c]) = 10 * val_nat s + (c - 48)"
  by (simp add: val_nat_def)

lemma val_str_nat: "val_nat (str_nat n) = n"
proof (induction n rule: str_nat.induct)
  case (1 n)
  show ?case
  proof (cases "n < 10")
    case True
    then show ?thesis by (simp add: str_nat.simps [of n] val_nat_def digit_char_def)
  next
    case False
    with 1 have "val_nat (str_nat (n div 10)) = n div 10" by simp
    with False show ?thesis
      by (simp add: str_nat.simps [of n] val_nat_snoc digit_char_def)
  qed
qed

lemma str_nat_inj: "str_nat m = str_nat n \<Longrightarrow> m = n"
  by (metis val_str_nat)

lemma str_int_inj_nonneg:
  assumes "0 \<le> i" "0 \<le> j" "str_int i = str_int j"
  shows "i = j"
proof -
  from assms have "str_nat (nat i) = str_nat (nat j)" by (simp add: str_int_def)
  then have "nat i = nat j" by (rule str_nat_inj)
  with assms show ?thesis by simp
qed

lemma or_sentinel_nonempty: "or_sentinel v \<noteq> []"
  by (simp add: or_sentinel_def sentinel_def py_def split: option.splits)

lemma scrape_page_eq:
  "scrape_page env self page evs =
     (page_records env self page, evs @ [Requested (get_page_url self page)])"
  by (simp add: page_records_def scrape_page_def Let_def split: sum.splits pyerror.splits)

lemma page_results_set:
  "set (page_results env items) =
     {r. \<exists>c \<in> set items. extract_item_data env c = Some r \<and> title r \<noteq> sentinel}"
  by (induction items) (auto split: option.splits)

lemma page_results_append:
  "page_results env (xs @ ys) = page_results env xs @ page_results env ys"
  by (induction xs) (auto split: option.splits)

lemma pages_loop_ok:
  assumes "\<forall>p \<in> set ps. p < max_pages \<longrightarrow> time_sleep env (delay self) = Inr ()"
  shows "pages_loop env self max_pages ps acc evs =
           (Inr (acc @ concat (map (page_records env self) ps)),
            evs @ concat (map (page_events self max_pages) ps))"
  using assms
  by (induction ps arbitrary: acc evs) (simp_all add: scrape_page_eq page_events_def)

lemma pages_loop_returns:
  assumes "pages_loop env self max_pages ps acc evs = (Inr rs, evs')"
  shows "rs = acc @ concat (map (page_records env self) ps)"
  using assms
proof (induction ps arbitrary: acc evs)
  case Nil
  then show ?case by simp
next
  case (Cons p ps)
  from Cons.prems obtain evs1 where
    "pages_loop env self max_pages ps (acc @ page_records env self p) evs1 = (Inr rs, evs')"
    by (auto simp add: scrape_page_eq split: if_splits sum.splits)
  then have "rs = (acc @ page_records env self p) @ concat (map (page_records env self) ps)"
    by (rule Cons.IH)
  then show ?case by simp
qed

lemma page_records_eq:
  "page_records env self page =
     (case fetch_soup env (get_page_url self page) of
        Inl e \<Rightarrow> []
      | Inr soup \<Rightarrow> page_results env (items_found env soup))"
  by (simp add: page_records_def scrape_page_def Let_def split: sum.splits pyerror.splits)

lemma run_returns:
  assumes "fst (scrape_multiple_pages env self max_pages evs) = Inr all_results"
  shows "all_results = concat (map (page_records env self) [1..max_pages])"
proof -
  obtain out evs' where loop: "pages_loop env self max_pages [1..max_pages] [] evs = (out, evs')"
    by (cases "pages_loop env self max_pages [1..max_pages] [] evs")
  with assms have "out = Inr all_results"
    by (cases out) (simp_all add: scrape_multiple_pages_def)
  with loop show ?thesis
    using pages_loop_returns [of env self max_pages "[1..max_pages]" "[]" evs all_results evs']
    by simp
qed

lemma in_set_take_nth:
  assumes "s \<in> set (take i xs)" and "i < length xs"
  shows "\<exists>j<i. s = xs ! j"
  using assms by (auto simp add: in_set_conv_nth)

lemma select_cards_first:
  assumes "\<forall>s \<in> set pre. select env soup s = []" and "select env soup sel \<noteq> []"
  shows "select_cards env soup (pre @ sel # post) = (select env soup sel, pre @ [sel])"
  using assms by (induction pre) (simp_all add: Let_def)

lemma select_cards_none:
  assumes "\<forall>s \<in> set sels. select env soup s = []"
  shows "select_cards env soup sels = ([], sels)"
  using assms by (induction sels) (simp_all add: Let_def)

lemma length_card_selectors: "length card_selectors = 5"
  by (simp add: card_selectors_def)

lemma find_all_car_iff:
  "el \<in> set (find_all_car env soup) \<longleftrightarrow>
     el \<in> set (descendants soup) \<and> is_tag el
     \<and> (tag_name el = py ''div'' \<or> tag_name el = py ''li'')
     \<and> (\<exists>t. tag_string el = Some t \<and> t \<noteq> [] \<and> contains (lower env t) (py ''car''))"
  by (auto simp add: find_all_car_def car_text_def split: option.splits)

lemma first_price_skip:
  assumes "\<forall>s \<in> set pre. \<forall>e. select_one env item_card s = Some e \<longrightarrow> \<not> price_like env (get_text_strip e)"
  shows "first_price env item_card (pre @ rest) = first_price env item_card rest"
  using assms by (induction pre) (auto simp add: Let_def split: option.splits)

lemma first_price_none:
  assumes "\<forall>s \<in> set sels. \<forall>e. select_one env item_card s = Some e \<longrightarrow> \<not> price_like env (get_text_strip e)"
  shows "first_price env item_card sels = None"
  using first_price_skip [OF assms, of "[]"] by simp

lemma price_like_iff:
  "price_like env t \<longleftrightarrow> rupee \<in> set t \<or> (\<exists>c \<in> set t. isdigit env c)"
  by (simp add: price_like_def list_ex_iff)

lemma extract_price:
  assumes "extract_item_data env item_card = Some r"
  shows "price r = or_sentinel (first_price env item_card price_selectors)"
  using assms by (auto simp add: extract_item_data_def Let_def split: sum.splits)

lemma extract_url_cases:
  "extract_item_data env item_card =
     (case extract_url env item_card of
        Inl e \<Rightarrow> None
      | Inr u \<Rightarrow>
          Some \<lparr>title = or_sentinel (first_text env item_card title_selectors),
                price = or_sentinel (first_price env item_card price_selectors),
                location = or_sentinel (first_text env item_card location_selectors),
                url = or_sentinel u,
                image_url = or_sentinel (extract_image_url item_card)\<rparr>)"
  by (simp add: extract_item_data_def Let_def)

lemma startswith_nonempty: "startswith s p \<Longrightarrow> p \<noteq> [] \<Longrightarrow> s \<noteq> []"
  by (auto simp add: startswith_def)

lemma fetch_soup_fails:
  assumes "(\<exists>e. session_get env u = Inl e)
     \<or> (\<exists>resp. session_get env u = Inr resp
           \<and> ((400 \<le> status_code resp \<and> status_code resp < 600)
               \<or> (\<exists>e. html_parser env (content resp) = Inl e)))"
  shows "\<exists>e. fetch_soup env u = Inl e"
  using assms
  by (auto simp add: fetch_soup_def raise_for_status_def split: sum.splits)

lemma pages_loop_error:
  assumes "pages_loop env self max_pages ps acc evs = (Inl e, evs')"
  shows "time_sleep env (delay self) = Inl e"
  using assms
proof (induction ps arbitrary: acc evs)
  case Nil
  then show ?case by simp
next
  case (Cons p ps)
  show ?case
  proof (cases "time_sleep env (delay self)")
    case (Inl e')
    with Cons show ?thesis
      by (auto simp add: scrape_page_eq split: if_splits)
  next
    case (Inr u)
    with Cons show ?thesis
      by (auto simp add: scrape_page_eq split: if_splits)
  qed
qed

lemma first_text_at:
  assumes "\<forall>s \<in> set pre. select_one env item_card s = None"
    and "select_one env item_card sel = Some el"
  shows "first_text env item_card (pre @ sel # post) = Some (get_text_strip el)"
  using assms by (induction pre) simp_all

section \<open>The sample site, evaluated\<close>

lemmas model_simps =
  py_def tag_def sentinel_def rupee_def olx_origin_def
  select_def select_one_def get_text_strip_def strip_def isspace_def
  find_a_href_def find_img_def startswith_def
  title_selectors_def price_selectors_def location_selectors_def card_selectors_def
  price_like_def extract_url_def extract_image_url_def or_sentinel_def extract_item_data_def
  Let_def

lemmas demo_simps =
  demo_env_def demo_css_match_def demo_isdigit_def demo_lower_def demo_urljoin_def
  has_class_def attr_equals_def attr_contains_def named_def

lemma demo_extract_full:
  "extract_item_data demo_env card_full =
     Some \<lparr>title = py ''Car body cover'', price = rupee # py '' 500'', location = py ''Pune'',
           url = py ''https://www.olx.in/item/cover-1'',
           image_url = py ''https://img.example/1.jpg''\<rparr>"
  by (simp add: model_simps demo_simps card_full_def)

lemma demo_extract_untitled:
  "extract_item_data demo_env card_untitled =
     Some \<lparr>title = sentinel, price = py ''1200'', location = sentinel,
           url = py ''https://www.olx.in/item/cover-2'', image_url = sentinel\<rparr>"
  by (simp add: model_simps demo_simps card_untitled_def)

lemma demo_extract_bad_link: "extract_item_data demo_env card_bad_link = None"
  by (simp add: model_simps demo_simps card_bad_link_def)

lemma demo_extract_http_path:
  "extract_item_data demo_env card_http_path =
     Some \<lparr>title = py ''Cover'', price = sentinel, location = sentinel,
           url = py ''httpd/x'', image_url = sentinel\<rparr>"
  by (simp add: model_simps demo_simps card_http_path_def)

lemma demo_extract_blank_title:
  "extract_item_data demo_env card_blank_title =
     Some \<lparr>title = sentinel, price = sentinel, location = sentinel,
           url = sentinel, image_url = sentinel\<rparr>"
  by (simp add: model_simps demo_simps card_blank_title_def)

lemma demo_select_cards_one:
  "select_cards demo_env page_one card_selectors =
     ([card_full, card_untitled, card_bad_link], [card_selectors ! 0])"
  by (simp add: model_simps demo_simps page_one_def card_full_def card_untitled_def
      card_bad_link_def)

lemma demo_select_cards_three:
  "select_cards demo_env page_three card_selectors = ([], card_selectors)"
  by (simp add: model_simps demo_simps page_three_def)

lemma demo_find_all_car_three:
  "find_all_car demo_env page_three =
     [tag ''div'' [] [tag ''p'' [] [Text (py ''Used CAR covers'')]]]"
  by (simp add: model_simps demo_simps page_three_def find_all_car_def car_text_def)

lemma demo_urls:
  "get_page_url demo_scraper 1 = default_base_url"
  "get_page_url demo_scraper 2 = default_base_url @ py ''?page=2''"
  "get_page_url demo_scraper 3 = default_base_url @ py ''?page=3''"
  by (simp_all add: get_page_url_def demo_scraper_def init_scraper_def str_int_def
      str_nat.simps digit_char_def py_def)

lemma demo_fetch:
  "fetch_soup demo_env default_base_url = Inr page_one"
  "fetch_soup demo_env (default_base_url @ py ''?page=2'') = Inl RequestException"
  "fetch_soup demo_env (default_base_url @ py ''?page=3'') = Inr page_three"
  by (simp_all add: fetch_soup_def demo_env_def demo_session_get_def demo_html_parser_def
      raise_for_status_def default_base_url_def py_def)

lemma demo_items_one: "items_found demo_env page_one = [card_full, card_untitled, card_bad_link]"
  by (simp add: items_found_def demo_select_cards_one)

lemma demo_items_three:
  "items_found demo_env page_three =
     [tag ''div'' [] [tag ''p'' [] [Text (py ''Used CAR covers'')]]]"
  by (simp add: items_found_def demo_select_cards_three demo_find_all_car_three)

lemma demo_extract_fallback:
  "extract_item_data demo_env (tag ''div'' [] [tag ''p'' [] [Text (py ''Used CAR covers'')]]) =
     Some \<lparr>title = sentinel, price = sentinel, location = sentinel,
           url = sentinel, image_url = sentinel\<rparr>"
  by (simp add: model_simps demo_simps)

lemma demo_page_results_one:
  "page_results demo_env [card_full, card_untitled, card_bad_link] =
     [\<lparr>title = py ''Car body cover'', price = rupee # py '' 500'', location = py ''Pune'',
       url = py ''https://www.olx.in/item/cover-1'',
       image_url = py ''https://img.example/1.jpg''\<rparr>]"
  by (simp add: demo_extract_full demo_extract_untitled demo_extract_bad_link)
     (simp add: sentinel_def py_def)

lemma demo_page_records:
  "page_records demo_env demo_scraper 1 =
     [\<lparr>title = py ''Car body cover'', price = rupee # py '' 500'', location = py ''Pune'',
       url = py ''https://www.olx.in/item/cover-1'',
       image_url = py ''https://img.example/1.jpg''\<rparr>]"
  "page_records demo_env demo_scraper 2 = []"
  "page_records demo_env demo_scraper 3 = []"
proof -
  show "page_records demo_env demo_scraper 1 =
     [\<lparr>title = py ''Car body cover'', price = rupee # py '' 500'', location = py ''Pune'',
       url = py ''https://www.olx.in/item/cover-1'',
       image_url = py ''https://img.example/1.jpg''\<rparr>]"
    by (simp only: page_records_eq demo_urls demo_fetch sum.case demo_items_one
        demo_page_results_one)
  show "page_records demo_env demo_scraper 2 = []"
    by (simp only: page_records_eq demo_urls demo_fetch sum.case)
  show "page_records demo_env demo_scraper 3 = []"
    by (simp add: page_records_eq demo_urls demo_fetch demo_items_three demo_extract_fallback)
qed

lemma demo_sleep: "time_sleep demo_env (delay demo_scraper) = Inr ()"
  by (simp add: time_sleep_def demo_env_def demo_scraper_def init_scraper_def)

lemma demo_run:
  "scrape_multiple_pages demo_env demo_scraper 3 [] =
     (Inr [\<lparr>title = py ''Car body cover'', price = rupee # py '' 500'', location = py ''Pune'',
            url = py ''https://www.olx.in/item/cover-1'',
            image_url = py ''https://img.example/1.jpg''\<rparr>],
      demo_scraper\<lparr>results :=
        [\<lparr>title = py ''Car body cover'', price = rupee # py '' 500'', location = py ''Pune'',
          url = py ''https://www.olx.in/item/cover-1'',
          image_url = py ''https://img.example/1.jpg''\<rparr>]\<rparr>,
      [Requested default_base_url, Slept (3 / 2),
       Requested (default_base_url @ py ''?page=2''), Slept (3 / 2),
       Requested (default_base_url @ py ''?page=3'')])"
proof -
  have loop: "pages_loop demo_env demo_scraper 3 [1..3] [] [] =
      (Inr ([] @ concat (map (page_records demo_env demo_scraper) [1..3])),
       [] @ concat (map (page_events demo_scraper 3) [1..3]))"
    by (rule pages_loop_ok) (simp add: demo_sleep)
  have pages: "[1..3] = [1, 2, 3::int]"
    by (simp add: upto_rec1)
  have secs: "delay demo_scraper = 3 / 2"
    by (simp add: demo_scraper_def init_scraper_def)
  show ?thesis
    unfolding scrape_multiple_pages_def loop
    by (simp add: pages demo_page_records page_events_def demo_urls secs)
qed

lemma demo_run_negative:
  "scrape_multiple_pages demo_env (init_scraper default_base_url (- 1)) 2 [] =
     (Inl ValueError, init_scraper default_base_url (- 1), [Requested default_base_url])"
proof -
  have pages: "[1..2] = [1, 2::int]"
    by (simp add: upto_rec1)
  have sleep: "time_sleep demo_env (delay (init_scraper default_base_url (- 1))) = Inl ValueError"
    by (simp add: time_sleep_def init_scraper_def)
  have first: "get_page_url (init_scraper default_base_url (- 1)) 1 = default_base_url"
    by (simp add: get_page_url_def init_scraper_def)
  show ?thesis
    unfolding scrape_multiple_pages_def pages
    by (simp add: scrape_page_eq sleep first)
qed

lemma full_title: "title listing_full \<noteq> sentinel"
  by (simp add: listing_full_def sentinel_def py_def)

lemma ex_full: "extract_item_data demo_env card_full = Some listing_full"
  by (simp add: demo_extract_full listing_full_def)

lemma run3: "fst (scrape_multiple_pages demo_env demo_scraper 3 []) = Inr [listing_full]"
  by (simp add: demo_run listing_full_def)

lemma demo_price_elems:
  "select_one demo_env card_full (price_selectors ! 0) =
     Some (tag ''span'' [(''class'', ''_2b6f3'')] [Text (py ''Negotiable'')])"
  "select_one demo_env card_full (price_selectors ! 1) =
     Some (tag ''span'' [(''data-aut-id'', ''itemPrice'')] [Text (rupee # py '' 500'')])"
  by (simp_all add: model_simps demo_simps card_full_def)

lemma demo_price_texts:
  "get_text_strip (tag ''span'' [(''class'', ''_2b6f3'')] [Text (py ''Negotiable'')]) = py ''Negotiable''"
  "get_text_strip (tag ''span'' [(''data-aut-id'', ''itemPrice'')] [Text (rupee # py '' 500'')])
     = rupee # py '' 500''"
  by (simp_all add: model_simps)

lemma demo_no_price:
  "\<forall>s \<in> set price_selectors. select_one demo_env card_http_path s = None"
  by (simp add: model_simps demo_simps card_http_path_def)

lemma ex_http_path: "extract_item_data demo_env card_http_path = Some listing_http_path"
  by (simp add: demo_extract_http_path listing_http_path_def)

lemma demo_hrefs:
  "map_option (\<lambda>a. get_attr a (py ''href'')) (find_a_href card_full)
     = Some (Some (py ''/item/cover-1''))"
  "map_option (\<lambda>a. get_attr a (py ''href'')) (find_a_href card_untitled)
     = Some (Some (py ''https://www.olx.in/item/cover-2''))"
  "map_option (\<lambda>a. get_attr a (py ''href'')) (find_a_href card_bad_link)
     = Some (Some (py ''//[bad''))"
  "map_option (\<lambda>a. get_attr a (py ''href'')) (find_a_href card_http_path)
     = Some (Some (py ''httpd/x''))"
  by (simp_all add: find_a_href_def py_def tag_def card_full_def card_untitled_def
      card_bad_link_def card_http_path_def)

lemma demo_joins:
  "urljoin demo_env olx_origin (py ''/item/cover-1'') = Inr (py ''https://www.olx.in/item/cover-1'')"
  "urljoin demo_env olx_origin (py ''//[bad'') = Inl ValueError"
  "urljoin demo_env olx_origin (py ''httpd/x'') = Inr (py ''https://www.olx.in/httpd/x'')"
  by (simp_all add: demo_env_def demo_urljoin_def olx_origin_def startswith_def py_def)

lemma ex_untitled: "extract_item_data demo_env card_untitled = Some listing_untitled"
  by (simp add: demo_extract_untitled listing_untitled_def)

lemma demo_select_first:
  "select demo_env page_one (card_selectors ! 0) = [card_full, card_untitled, card_bad_link]"
  by (simp add: model_simps demo_simps page_one_def card_full_def card_untitled_def
      card_bad_link_def)

lemma demo_select_three: "\<forall>s \<in> set card_selectors. select demo_env page_three s = []"
  by (simp add: model_simps demo_simps page_three_def)

lemma demo_select_bare: "\<forall>s \<in> set card_selectors. select demo_env (tag ''[document]'' [] []) s = []"
  by (simp add: model_simps)

lemma demo_find_all_car_bare: "find_all_car demo_env (tag ''[document]'' [] []) = []"
  by (simp add: find_all_car_def tag_def)

lemma demo_status:
  "session_get demo_env (get_page_url demo_scraper 2) = Inr \<lparr>status_code = 404, content = []\<rparr>"
  by (simp add: demo_urls demo_env_def demo_session_get_def default_base_url_def py_def)

lemma run_hasty: "fst (scrape_multiple_pages demo_env hasty_scraper 2 []) = Inl ValueError"
  by (simp add: hasty_scraper_def demo_run_negative)

lemma ex_blank: "extract_item_data demo_env card_blank_title = Some listing_blank"
  by (simp add: demo_extract_blank_title listing_blank_def)

lemma demo_blank_h6:
  "select_one demo_env card_blank_title (title_selectors ! 0) = Some (tag ''h6'' [] [Text (py ''  '')])"
  "get_text_strip (tag ''h6'' [] [Text (py ''  '')]) = []"
  by (simp_all add: model_simps demo_simps card_blank_title_def)

lemma demo_select_classes_each:
  "select demo_env page_classes (card_selectors ! 0) = []"
  "select demo_env page_classes (card_selectors ! 1) = []"
  "select demo_env page_classes (card_selectors ! 2) = []"
  "select demo_env page_classes (card_selectors ! 3) =
     [tag ''div'' [(''class'', ''item-card wide'')] [tag ''h6'' [] [Text (py ''Bike cover'')]]]"
  "select demo_env page_classes (card_selectors ! 4) =
     [tag ''div'' [(''class'', ''item-card wide'')] [tag ''h6'' [] [Text (py ''Bike cover'')]],
      tag ''span'' [(''class'', ''item-note'')] [Text (py ''new'')]]"
  by (simp_all add: model_simps demo_simps page_classes_def)

lemma demo_select_classes:
  "\<forall>j<3. select demo_env page_classes (card_selectors ! j) = []"
proof (intro allI impI)
  fix j :: nat
  assume "j < 3"
  then have "j = 0 \<or> j = 1 \<or> j = 2"
    by arith
  then show "select demo_env page_classes (card_selectors ! j) = []"
    using demo_select_classes_each(1-3) by blast
qed

text \<open>The writers on strings that need quoting and escaping.\<close>

lemma demo_csv_row:
  "csv_row [py ''Cover, large'', py ''a\"b'', sentinel] = py ''\"Cover, large\",\"a\"\"b\",N/A'' @ [13, 10]"
  by (simp add: csv_row_def csv_field_def py_def sentinel_def)

lemma demo_json_string:
  "json_string (py ''a\"b'' @ [10, 1, rupee]) = py ''\"a'' @ [92] @ py ''\"b'' @ [92] @ py ''n'' @ [92] @ py ''u0001'' @ [rupee] @ py ''\"''"
  by (simp add: json_string_def json_escape_def hex_digit_def py_def rupee_def)

lemma demo_strings:
  "get_text_strip (tag ''h6'' [] [Comment (py ''old title''), Text (py '' Cover '')]) = py ''Cover''"
  "tag_string (tag ''div'' [] [Comment (py ''car parts'')]) = Some (py ''car parts'')"
  by (simp_all add: model_simps)

lemma demo_dollar_elem:
  "select_one demo_env card_dollar (price_selectors ! 2) =
     Some (tag ''span'' [(''class'', ''price'')] [Text (py ''$ call'')])"
  "get_text_strip (tag ''span'' [(''class'', ''price'')] [Text (py ''$ call'')]) = py ''$ call''"
  by (simp_all add: model_simps demo_simps card_dollar_def)

lemma ex_dollar: "extract_item_data demo_env card_dollar = Some listing_dollar"
  by (simp add: model_simps demo_simps card_dollar_def listing_dollar_def)

lemma demo_redirect:
  "get_page_url demo_scraper 4 = default_base_url @ py ''?page=4''"
  "session_get demo_env (default_base_url @ py ''?page=4'') = Inr \<lparr>status_code = 302, content = [1]\<rparr>"
  "fetch_soup demo_env (default_base_url @ py ''?page=4'') = Inr page_one"
  by (simp_all add: get_page_url_def demo_scraper_def init_scraper_def str_int_def
      str_nat.simps digit_char_def fetch_soup_def demo_env_def demo_session_get_def
      demo_html_parser_def raise_for_status_def default_base_url_def py_def)

lemma demo_page_four: "page_records demo_env demo_scraper 4 = [listing_full]"
  by (simp only: page_records_eq demo_redirect sum.case demo_items_one demo_page_results_one
      listing_full_def)

section \<open>The properties\<close>

text \<open>
  Claim C1. When the run returns a list, no record in it has the title \<open>N/A\<close>; and every
  record that \<open>extract_item_data\<close> returns with another title, for an item found on a page
  that was fetched and parsed (page number from 1 to \<open>max_pages\<close>), is in the list.
\<close>

theorem retained_iff_title:
  assumes "fst (scrape_multiple_pages env self max_pages evs) = Inr all_results"
  shows "(\<forall>r \<in> set all_results. title r \<noteq> sentinel) \<and>
         (\<forall>page soup item_card r.
            1 \<le> page \<and> page \<le> max_pages
            \<and> fetch_soup env (get_page_url self page) = Inr soup
            \<and> item_card \<in> set (items_found env soup)
            \<and> extract_item_data env item_card = Some r
            \<and> title r \<noteq> sentinel
            \<longrightarrow> r \<in> set all_results)"
proof -
  have all: "all_results = concat (map (page_records env self) [1..max_pages])"
    using assms by (rule run_returns)
  have kept: "title r \<noteq> sentinel" if "r \<in> set (page_records env self page)" for r page
    using that by (auto simp add: page_records_eq page_results_set split: sum.splits)
  have retained: "r \<in> set all_results"
    if "1 \<le> page" "page \<le> max_pages" "fetch_soup env (get_page_url self page) = Inr soup"
      "item_card \<in> set (items_found env soup)" "extract_item_data env item_card = Some r"
      "title r \<noteq> sentinel" for page soup item_card r
  proof -
    from that(3-6) have "r \<in> set (page_records env self page)"
      by (auto simp add: page_records_eq page_results_set)
    moreover from that(1,2) have "page \<in> set [1..max_pages]" by simp
    ultimately show ?thesis unfolding all by auto
  qed
  from kept have "\<forall>r \<in> set all_results. title r \<noteq> sentinel"
    unfolding all by auto
  with retained show ?thesis by blast
qed

theorem retained_iff_title_witness:
  "fst (scrape_multiple_pages demo_env demo_scraper 3 []) = Inr [listing_full]
   \<and> title listing_full \<noteq> sentinel
   \<and> fetch_soup demo_env (get_page_url demo_scraper 1) = Inr page_one
   \<and> card_full \<in> set (items_found demo_env page_one)
   \<and> extract_item_data demo_env card_full = Some listing_full
   \<and> listing_full \<in> set [listing_full]
   \<and> extract_item_data demo_env card_untitled = Some listing_untitled
   \<and> title listing_untitled = sentinel
   \<and> listing_untitled \<notin> set [listing_full]"
proof -
  note claim = retained_iff_title [OF run3]
  have fetched: "fetch_soup demo_env (get_page_url demo_scraper 1) = Inr page_one"
    by (simp add: demo_urls demo_fetch)
  have found: "card_full \<in> set (items_found demo_env page_one)"
    by (simp add: demo_items_one)
  from claim have kept: "title listing_full \<noteq> sentinel"
    by simp
  from claim fetched found ex_full kept have "listing_full \<in> set [listing_full]"
    by simp
  moreover have "extract_item_data demo_env card_untitled = Some listing_untitled"
    by (simp add: demo_extract_untitled listing_untitled_def)
  moreover have "title listing_untitled = sentinel" "listing_untitled \<notin> set [listing_full]"
    by (simp_all add: listing_untitled_def listing_full_def sentinel_def py_def)
  ultimately show ?thesis
    using run3 fetched found ex_full kept by simp
qed

text \<open>
  Claim C2. The URL of page 1 is the base URL, with nothing appended; the URL of a page
  \<open>k > 1\<close> is the base URL, then \<open>?page=\<close>, then \<open>k\<close> in decimal.
\<close>

theorem get_page_url_spec:
  "get_page_url self 1 = base_url self \<and>
   (\<forall>k>1. get_page_url self k = base_url self @ py ''?page='' @ str_int k)"
  by (simp add: get_page_url_def)

theorem get_page_url_spec_witness:
  "get_page_url demo_scraper 1 = default_base_url
   \<and> get_page_url demo_scraper 2 = default_base_url @ py ''?page=2''
   \<and> get_page_url demo_scraper 12 = default_base_url @ py ''?page=12''"
  using get_page_url_spec [of demo_scraper]
  by (simp add: demo_scraper_def init_scraper_def str_int_def str_nat.simps py_def digit_char_def)

text \<open>
  Claim C3, amended. For \<open>max_pages \<ge> 1\<close>, and a delay that \<open>time.sleep\<close> accepts when
  there is more than one page: the run requests the pages 1 to \<open>max_pages\<close> in this order,
  whatever each page yields, sleeps after every page but the last, returns the per-page
  lists joined in page order, and stores that list in \<open>results\<close>.
\<close>

theorem pages_in_order:
  assumes "1 \<le> max_pages"
    and "max_pages = 1 \<or> (0 \<le> delay self \<and> delay self \<le> sleep_max env)"
  shows "scrape_multiple_pages env self max_pages evs =
           (Inr (concat (map (page_records env self) [1..max_pages])),
            self\<lparr>results := concat (map (page_records env self) [1..max_pages])\<rparr>,
            evs @ concat (map (\<lambda>page. Requested (get_page_url self page)
                                        # (if page < max_pages then [Slept (delay self)] else []))
                            [1..max_pages]))"
proof -
  from assms(2) have "\<forall>p \<in> set [1..max_pages]. p < max_pages \<longrightarrow> time_sleep env (delay self) = Inr ()"
    by (auto simp add: time_sleep_def)
  then have "pages_loop env self max_pages [1..max_pages] [] evs =
      (Inr ([] @ concat (map (page_records env self) [1..max_pages])),
       evs @ concat (map (page_events self max_pages) [1..max_pages]))"
    by (rule pages_loop_ok)
  then show ?thesis
    by (simp add: scrape_multiple_pages_def page_events_def [abs_def])
qed

theorem pages_in_order_witness:
  "(1::int) \<le> 3 \<and> 0 \<le> delay demo_scraper \<and> delay demo_scraper \<le> sleep_max demo_env
   \<and> scrape_multiple_pages demo_env demo_scraper 3 [] =
       (Inr [listing_full], demo_scraper\<lparr>results := [listing_full]\<rparr>,
        [Requested default_base_url, Slept (3 / 2),
         Requested (default_base_url @ py ''?page=2''), Slept (3 / 2),
         Requested (default_base_url @ py ''?page=3'')])"
proof -
  have pages: "(1::int) \<le> 3"
    by simp
  have secs: "0 \<le> delay demo_scraper \<and> delay demo_scraper \<le> sleep_max demo_env"
    by (simp add: demo_scraper_def init_scraper_def demo_env_def)
  then have accepted: "(3::int) = 1 \<or> (0 \<le> delay demo_scraper \<and> delay demo_scraper \<le> sleep_max demo_env)"
    by simp
  have upto: "[1..3] = [1, 2, 3::int]"
    by (simp add: upto_rec1)
  have "delay demo_scraper = 3 / 2"
    by (simp add: demo_scraper_def init_scraper_def)
  with pages_in_order [OF pages accepted, of "[]"] pages secs show ?thesis
    unfolding upto
    by (simp add: demo_page_records demo_urls listing_full_def)
qed

text \<open>
  Claim C3 as stated fails for a negative delay: with two pages asked for, the sleep after
  page 1 raises \<open>ValueError\<close>, page 2 is never requested and no list is returned.
\<close>

theorem negative_delay_counterexample:
  "scrape_multiple_pages demo_env hasty_scraper 2 [] =
     (Inl ValueError, hasty_scraper, [Requested default_base_url])
   \<and> delay hasty_scraper = - 1"
  by (simp add: hasty_scraper_def demo_run_negative) (simp add: init_scraper_def)

text \<open>
  Claim C4, amended. In a record of \<open>extract_item_data\<close>: when the element of the price selector
  at position \<open>i\<close> has a text with the rupee sign or a digit, and the element of every
  earlier selector that finds one has a text with neither, the price is that text; when
  no selector finds an element with such a text, the price is \<open>N/A\<close>.
\<close>

theorem price_candidates:
  assumes "extract_item_data env item_card = Some r"
  shows "(\<forall>i<length price_selectors. \<forall>el.
            (\<forall>j<i. \<forall>e. select_one env item_card (price_selectors ! j) = Some e
                \<longrightarrow> rupee \<notin> set (get_text_strip e) \<and> (\<forall>c \<in> set (get_text_strip e). \<not> isdigit env c))
            \<and> select_one env item_card (price_selectors ! i) = Some el
            \<and> (rupee \<in> set (get_text_strip el) \<or> (\<exists>c \<in> set (get_text_strip el). isdigit env c))
            \<longrightarrow> price r = get_text_strip el)
       \<and> ((\<forall>s \<in> set price_selectors. \<forall>e. select_one env item_card s = Some e
                \<longrightarrow> rupee \<notin> set (get_text_strip e) \<and> (\<forall>c \<in> set (get_text_strip e). \<not> isdigit env c))
            \<longrightarrow> price r = sentinel)"
proof -
  have accepted: "price r = get_text_strip el"
    if i: "i < length price_selectors"
      and before: "\<forall>j<i. \<forall>e. select_one env item_card (price_selectors ! j) = Some e
                \<longrightarrow> rupee \<notin> set (get_text_strip e) \<and> (\<forall>c \<in> set (get_text_strip e). \<not> isdigit env c)"
      and here: "select_one env item_card (price_selectors ! i) = Some el"
      and ok: "rupee \<in> set (get_text_strip el) \<or> (\<exists>c \<in> set (get_text_strip el). isdigit env c)"
    for i el
  proof -
    from i have split: "price_selectors =
        take i price_selectors @ price_selectors ! i # drop (Suc i) price_selectors"
      by (rule id_take_nth_drop)
    have "\<forall>s \<in> set (take i price_selectors). \<forall>e.
        select_one env item_card s = Some e \<longrightarrow> \<not> price_like env (get_text_strip e)"
    proof (intro ballI allI impI)
      fix s e
      assume "s \<in> set (take i price_selectors)" and e: "select_one env item_card s = Some e"
      with i obtain j where "j < i" and "s = price_selectors ! j"
        by (auto dest: in_set_take_nth)
      with before e show "\<not> price_like env (get_text_strip e)"
        unfolding price_like_iff by blast
    qed
    then have "first_price env item_card
          (take i price_selectors @ price_selectors ! i # drop (Suc i) price_selectors)
        = first_price env item_card (price_selectors ! i # drop (Suc i) price_selectors)"
      by (rule first_price_skip)
    also from here ok have "\<dots> = Some (get_text_strip el)"
      by (simp add: price_like_iff)
    finally have "first_price env item_card price_selectors = Some (get_text_strip el)"
      using split by simp
    moreover from ok have "get_text_strip el \<noteq> []" by auto
    ultimately show ?thesis
      using extract_price [OF assms] by (simp add: or_sentinel_def)
  qed
  have rejected: "price r = sentinel"
    if "\<forall>s \<in> set price_selectors. \<forall>e. select_one env item_card s = Some e
          \<longrightarrow> rupee \<notin> set (get_text_strip e) \<and> (\<forall>c \<in> set (get_text_strip e). \<not> isdigit env c)"
  proof -
    from that have "\<forall>s \<in> set price_selectors. \<forall>e. select_one env item_card s = Some e
          \<longrightarrow> \<not> price_like env (get_text_strip e)"
      by (auto simp add: price_like_iff)
    then have "first_price env item_card price_selectors = None"
      by (rule first_price_none)
    then show ?thesis
      using extract_price [OF assms] by (simp add: or_sentinel_def)
  qed
  from accepted rejected show ?thesis by blast
qed

theorem price_candidates_witness:
  "extract_item_data demo_env card_full = Some listing_full
   \<and> select_one demo_env card_full (price_selectors ! 0) =
        Some (tag ''span'' [(''class'', ''_2b6f3'')] [Text (py ''Negotiable'')])
   \<and> rupee \<notin> set (py ''Negotiable'') \<and> \<not> list_ex (isdigit demo_env) (py ''Negotiable'')
   \<and> select_one demo_env card_full (price_selectors ! 1) =
        Some (tag ''span'' [(''data-aut-id'', ''itemPrice'')] [Text (rupee # py '' 500'')])
   \<and> rupee \<in> set (rupee # py '' 500'')
   \<and> price listing_full = rupee # py '' 500''
   \<and> extract_item_data demo_env card_http_path = Some listing_http_path
   \<and> price listing_http_path = sentinel"
proof -
  have plain: "rupee \<notin> set (py ''Negotiable'')" "\<not> list_ex (isdigit demo_env) (py ''Negotiable'')"
    by (simp_all add: py_def rupee_def demo_env_def demo_isdigit_def)
  have earlier: "\<forall>j<1. \<forall>e. select_one demo_env card_full (price_selectors ! j) = Some e
      \<longrightarrow> rupee \<notin> set (get_text_strip e) \<and> (\<forall>c \<in> set (get_text_strip e). \<not> isdigit demo_env c)"
    using plain by (auto simp add: demo_price_elems demo_price_texts list_ex_iff)
  have here: "rupee \<in> set (get_text_strip
        (tag ''span'' [(''data-aut-id'', ''itemPrice'')] [Text (rupee # py '' 500'')]))"
    by (simp add: demo_price_texts)
  have len: "1 < length price_selectors"
    by (simp add: price_selectors_def)
  from price_candidates [OF ex_full] len earlier demo_price_elems(2) here
  have "price listing_full = get_text_strip
        (tag ''span'' [(''data-aut-id'', ''itemPrice'')] [Text (rupee # py '' 500'')])"
    by blast
  then have accepted: "price listing_full = rupee # py '' 500''"
    by (simp add: demo_price_texts)
  from price_candidates [OF ex_http_path] demo_no_price
  have none: "price listing_http_path = sentinel"
    by simp
  from accepted none plain ex_full ex_http_path demo_price_elems show ?thesis
    by simp
qed

text \<open>
  Claim C4 as stated fails for a currency symbol other than the rupee sign: the text
  \<open>$ call\<close> has the dollar sign and no digit, the price test turns it down, and the
  price of the record is \<open>N/A\<close>.
\<close>

theorem dollar_price_counterexample:
  "spec_currency_symbol 36 \<and> 36 \<in> set (py ''$ call'')
   \<and> select_one demo_env card_dollar (price_selectors ! 2) =
        Some (tag ''span'' [(''class'', ''price'')] [Text (py ''$ call'')])
   \<and> get_text_strip (tag ''span'' [(''class'', ''price'')] [Text (py ''$ call'')]) = py ''$ call''
   \<and> extract_item_data demo_env card_dollar = Some listing_dollar
   \<and> price listing_dollar = sentinel"
proof -
  have "spec_currency_symbol 36" "36 \<in> set (py ''$ call'')"
    by (simp_all add: spec_currency_symbol_def py_def)
  moreover have "price listing_dollar = sentinel"
    by (simp add: listing_dollar_def)
  ultimately show ?thesis
    using demo_dollar_elem ex_dollar by (intro conjI)
qed

text \<open>
  Claim C5, amended. The first anchor with an \<open>href\<close> below the item decides. An \<open>href\<close>
  that starts with \<open>http\<close> is the record's url, unchanged. Any other \<open>href\<close> goes through
  \<open>urljoin\<close> with the origin \<open>https://www.olx.in\<close>: the result is the url (\<open>N/A\<close> when it
  is empty), and there is no record when \<open>urljoin\<close> raises.
\<close>

theorem url_field:
  assumes "find_a_href item_card = Some link_elem"
    and "get_attr link_elem (py ''href'') = Some href"
  shows "(startswith href (py ''http'')
            \<longrightarrow> (\<exists>r. extract_item_data env item_card = Some r \<and> url r = href))
       \<and> (\<not> startswith href (py ''http'')
            \<longrightarrow> (\<forall>u. urljoin env olx_origin href = Inr u
                    \<longrightarrow> (\<exists>r. extract_item_data env item_card = Some r
                            \<and> url r = (if u = [] then sentinel else u)))
              \<and> (\<forall>e. urljoin env olx_origin href = Inl e
                    \<longrightarrow> extract_item_data env item_card = None))"
proof -
  have through: "\<exists>r. extract_item_data env item_card = Some r \<and> url r = href"
    if "startswith href (py ''http'')"
  proof -
    from that assms have "extract_url env item_card = Inr (Some href)"
      by (simp add: extract_url_def)
    moreover from that have "href \<noteq> []"
      by (rule startswith_nonempty) (simp add: py_def)
    ultimately show ?thesis
      by (simp add: extract_url_cases or_sentinel_def)
  qed
  have joined: "\<exists>r. extract_item_data env item_card = Some r \<and> url r = (if u = [] then sentinel else u)"
    if "\<not> startswith href (py ''http'')" and "urljoin env olx_origin href = Inr u" for u
  proof -
    from that assms have "extract_url env item_card = Inr (Some u)"
      by (simp add: extract_url_def)
    then show ?thesis
      by (simp add: extract_url_cases or_sentinel_def)
  qed
  have raised: "extract_item_data env item_card = None"
    if "\<not> startswith href (py ''http'')" and "urljoin env olx_origin href = Inl e" for e
  proof -
    from that assms have "extract_url env item_card = Inl e"
      by (simp add: extract_url_def)
    then show ?thesis
      by (simp add: extract_url_cases)
  qed
  from through joined raised show ?thesis by blast
qed

theorem url_field_witness:
  "map_option (\<lambda>a. get_attr a (py ''href'')) (find_a_href card_untitled)
     = Some (Some (py ''https://www.olx.in/item/cover-2''))
   \<and> startswith (py ''https://www.olx.in/item/cover-2'') (py ''http'')
   \<and> extract_item_data demo_env card_untitled = Some listing_untitled
   \<and> url listing_untitled = py ''https://www.olx.in/item/cover-2''
   \<and> map_option (\<lambda>a. get_attr a (py ''href'')) (find_a_href card_full)
       = Some (Some (py ''/item/cover-1''))
   \<and> \<not> startswith (py ''/item/cover-1'') (py ''http'')
   \<and> urljoin demo_env olx_origin (py ''/item/cover-1'')
       = Inr (py ''https://www.olx.in/item/cover-1'')
   \<and> extract_item_data demo_env card_full = Some listing_full
   \<and> url listing_full = py ''https://www.olx.in/item/cover-1''
   \<and> map_option (\<lambda>a. get_attr a (py ''href'')) (find_a_href card_bad_link)
       = Some (Some (py ''//[bad''))
   \<and> urljoin demo_env olx_origin (py ''//[bad'') = Inl ValueError
   \<and> extract_item_data demo_env card_bad_link = None"
proof -
  from demo_hrefs(2) obtain a2 where a2: "find_a_href card_untitled = Some a2"
    "get_attr a2 (py ''href'') = Some (py ''https://www.olx.in/item/cover-2'')"
    by auto
  have absolute: "startswith (py ''https://www.olx.in/item/cover-2'') (py ''http'')"
    by (simp add: startswith_def py_def)
  from url_field [OF a2, of demo_env] absolute ex_untitled
  have through: "url listing_untitled = py ''https://www.olx.in/item/cover-2''"
    by auto
  from demo_hrefs(1) obtain a1 where a1: "find_a_href card_full = Some a1"
    "get_attr a1 (py ''href'') = Some (py ''/item/cover-1'')"
    by auto
  have relative: "\<not> startswith (py ''/item/cover-1'') (py ''http'')"
    by (simp add: startswith_def py_def)
  from url_field [OF a1, of demo_env] relative demo_joins(1) ex_full
  have joined: "url listing_full = py ''https://www.olx.in/item/cover-1''"
    by (auto simp add: py_def)
  from demo_hrefs(3) obtain a3 where a3: "find_a_href card_bad_link = Some a3"
    "get_attr a3 (py ''href'') = Some (py ''//[bad'')"
    by auto
  have "\<not> startswith (py ''//[bad'') (py ''http'')"
    by (simp add: startswith_def py_def)
  with url_field [OF a3, of demo_env] demo_joins(2)
  have raised: "extract_item_data demo_env card_bad_link = None"
    by blast
  from through joined raised absolute relative show ?thesis
    by (simp add: demo_hrefs demo_joins ex_untitled ex_full)
qed

text \<open>
  Claim C5 as stated fails for a relative reference that starts with \<open>http\<close>: \<open>httpd/x\<close>
  has no scheme, yet it is the record's url as it stands, where \<open>urljoin\<close> with the origin
  gives \<open>https://www.olx.in/httpd/x\<close>.
\<close>

theorem http_prefix_counterexample:
  "\<not> spec_absolute_url (py ''httpd/x'')
   \<and> map_option (\<lambda>a. get_attr a (py ''href'')) (find_a_href card_http_path)
       = Some (Some (py ''httpd/x''))
   \<and> extract_item_data demo_env card_http_path = Some listing_http_path
   \<and> url listing_http_path = py ''httpd/x''
   \<and> urljoin demo_env olx_origin (py ''httpd/x'') = Inr (py ''https://www.olx.in/httpd/x'')"
proof -
  have "\<not> spec_absolute_url (py ''httpd/x'')"
    by (simp add: spec_absolute_url_def py_def)
  moreover have "url listing_http_path = py ''httpd/x''"
    by (simp add: listing_http_path_def)
  ultimately show ?thesis
    by (simp add: demo_hrefs demo_joins ex_http_path)
qed

text \<open>
  Claim C6. There are five card selectors. When the selector at position \<open>i\<close> is the
  first with a match, the items of the page are its matches, and the loop has asked the
  selectors up to position \<open>i\<close> and none after it. When none matches, the items are what
  the fallback finds: the \<open>div\<close> and \<open>li\<close> tags whose \<open>.string\<close> is not empty and holds
  \<open>car\<close> once in lower case. When the fallback finds nothing either, the result is the
  empty list.
\<close>

theorem items_found_first_match:
  "length card_selectors = 5
   \<and> (\<forall>i<5. (\<forall>j<i. select env soup (card_selectors ! j) = [])
              \<and> select env soup (card_selectors ! i) \<noteq> []
        \<longrightarrow> items_found env soup = select env soup (card_selectors ! i)
            \<and> snd (select_cards env soup card_selectors) = take (Suc i) card_selectors)
   \<and> ((\<forall>s \<in> set card_selectors. select env soup s = [])
        \<longrightarrow> items_found env soup = find_all_car env soup)
   \<and> (\<forall>el. el \<in> set (find_all_car env soup) \<longleftrightarrow>
          el \<in> set (descendants soup) \<and> is_tag el
          \<and> (tag_name el = py ''div'' \<or> tag_name el = py ''li'')
          \<and> (\<exists>t. tag_string el = Some t \<and> t \<noteq> [] \<and> contains (lower env t) (py ''car'')))
   \<and> ((\<forall>s \<in> set card_selectors. select env soup s = []) \<and> find_all_car env soup = []
        \<longrightarrow> items_found env soup = [])"
proof -
  have first: "items_found env soup = select env soup (card_selectors ! i)
      \<and> snd (select_cards env soup card_selectors) = take (Suc i) card_selectors"
    if i: "i < 5" and before: "\<forall>j<i. select env soup (card_selectors ! j) = []"
      and here: "select env soup (card_selectors ! i) \<noteq> []" for i
  proof -
    from i have len: "i < length card_selectors" by (simp add: length_card_selectors)
    then have split: "card_selectors = take i card_selectors @ card_selectors ! i # drop (Suc i) card_selectors"
      by (rule id_take_nth_drop)
    from before len have "\<forall>s \<in> set (take i card_selectors). select env soup s = []"
      by (auto dest: in_set_take_nth)
    then have "select_cards env soup (take i card_selectors @ card_selectors ! i # drop (Suc i) card_selectors)
        = (select env soup (card_selectors ! i), take i card_selectors @ [card_selectors ! i])"
      using here by (rule select_cards_first)
    with split have "select_cards env soup card_selectors
        = (select env soup (card_selectors ! i), take i card_selectors @ [card_selectors ! i])"
      by simp
    with here len show ?thesis
      by (simp add: items_found_def take_Suc_conv_app_nth)
  qed
  have none: "items_found env soup = find_all_car env soup"
    if "\<forall>s \<in> set card_selectors. select env soup s = []"
    using select_cards_none [OF that] by (simp add: items_found_def)
  from first none show ?thesis
    by (simp add: length_card_selectors find_all_car_iff)
qed

theorem items_found_first_match_witness:
  "select demo_env page_one (card_selectors ! 0) = [card_full, card_untitled, card_bad_link]
   \<and> items_found demo_env page_one = [card_full, card_untitled, card_bad_link]
   \<and> snd (select_cards demo_env page_one card_selectors) = take 1 card_selectors
   \<and> select demo_env page_classes (card_selectors ! 3) =
        [tag ''div'' [(''class'', ''item-card wide'')] [tag ''h6'' [] [Text (py ''Bike cover'')]]]
   \<and> items_found demo_env page_classes =
        [tag ''div'' [(''class'', ''item-card wide'')] [tag ''h6'' [] [Text (py ''Bike cover'')]]]
   \<and> snd (select_cards demo_env page_classes card_selectors) = take 4 card_selectors
   \<and> select_cards demo_env page_three card_selectors = ([], card_selectors)
   \<and> items_found demo_env page_three
       = [tag ''div'' [] [tag ''p'' [] [Text (py ''Used CAR covers'')]]]
   \<and> tag_string (tag ''div'' [] [tag ''p'' [] [Text (py ''Used CAR covers'')]])
       = Some (py ''Used CAR covers'')
   \<and> contains (lower demo_env (py ''Used CAR covers'')) (py ''car'')
   \<and> find_all_car demo_env (tag ''[document]'' [] []) = []
   \<and> items_found demo_env (tag ''[document]'' [] []) = []"
proof -
  have nonempty: "select demo_env page_one (card_selectors ! 0) \<noteq> []"
    by (simp only: demo_select_first) simp
  have none_before: "\<forall>j<0. select demo_env page_one (card_selectors ! j) = []"
    by simp
  have pos: "(0::nat) < 5"
    by simp
  from items_found_first_match [of demo_env page_one] pos none_before nonempty
  have "items_found demo_env page_one = select demo_env page_one (card_selectors ! 0)
      \<and> snd (select_cards demo_env page_one card_selectors) = take (Suc 0) card_selectors"
    by blast
  then have first: "items_found demo_env page_one = [card_full, card_untitled, card_bad_link]"
    "snd (select_cards demo_env page_one card_selectors) = take 1 card_selectors"
    by (simp_all only: demo_select_first One_nat_def)
  have later: "(3::nat) < 5"
    by simp
  have matched: "select demo_env page_classes (card_selectors ! 3) \<noteq> []"
    by (simp only: demo_select_classes_each) simp
  from items_found_first_match [of demo_env page_classes] later demo_select_classes matched
  have "items_found demo_env page_classes = select demo_env page_classes (card_selectors ! 3)
      \<and> snd (select_cards demo_env page_classes card_selectors) = take (Suc 3) card_selectors"
    by blast
  then have fourth: "items_found demo_env page_classes =
        [tag ''div'' [(''class'', ''item-card wide'')] [tag ''h6'' [] [Text (py ''Bike cover'')]]]"
    "snd (select_cards demo_env page_classes card_selectors) = take 4 card_selectors"
    by (simp_all only: demo_select_classes_each) simp_all
  from items_found_first_match [of demo_env page_three] demo_select_three
  have "items_found demo_env page_three = find_all_car demo_env page_three"
    by blast
  then have fallback: "items_found demo_env page_three
      = [tag ''div'' [] [tag ''p'' [] [Text (py ''Used CAR covers'')]]]"
    by (simp only: demo_find_all_car_three)
  from items_found_first_match [of demo_env "tag ''[document]'' [] []"]
    demo_select_bare demo_find_all_car_bare
  have bare: "items_found demo_env (tag ''[document]'' [] []) = []"
    by blast
  have scan: "tag_string (tag ''div'' [] [tag ''p'' [] [Text (py ''Used CAR covers'')]])
       = Some (py ''Used CAR covers'')"
    "contains (lower demo_env (py ''Used CAR covers'')) (py ''car'')"
    by (simp_all add: tag_def demo_env_def demo_lower_def py_def startswith_def)
  from first fourth fallback bare scan demo_select_first demo_select_classes_each(4)
    demo_select_cards_three demo_find_all_car_bare
  show ?thesis
    by (intro conjI)
qed

text \<open>
  Claim C7, amended. When the request raises, or the status is one on which \<open>raise_for_status\<close>
  raises (400 to 599, the statuses for which \<open>response.ok\<close> is false), or the parser
  raises, \<open>scrape_page\<close> returns the empty list. An item for which \<open>extract_item_data\<close>
  returns \<open>None\<close>, as it does on an exception, adds nothing, and the items before and
  after it are handled as without it. A run that ends in an exception ends in the one
  \<open>time.sleep\<close> raised: no page and no item ends it.
\<close>

theorem failures_contained:
  "(((\<exists>e. session_get env (get_page_url self page) = Inl e)
      \<or> (\<exists>resp. session_get env (get_page_url self page) = Inr resp
            \<and> ((400 \<le> status_code resp \<and> status_code resp < 600)
                \<or> (\<exists>e. html_parser env (content resp) = Inl e))))
     \<longrightarrow> scrape_page env self page evs = ([], evs @ [Requested (get_page_url self page)]))
   \<and> (extract_item_data env item_card = None
        \<longrightarrow> page_results env (before @ item_card # after)
            = page_results env before @ page_results env after)
   \<and> (\<forall>e. fst (scrape_multiple_pages env self max_pages evs) = Inl e
        \<longrightarrow> time_sleep env (delay self) = Inl e)"
proof (intro conjI impI allI)
  assume "(\<exists>e. session_get env (get_page_url self page) = Inl e)
      \<or> (\<exists>resp. session_get env (get_page_url self page) = Inr resp
            \<and> ((400 \<le> status_code resp \<and> status_code resp < 600)
                \<or> (\<exists>e. html_parser env (content resp) = Inl e)))"
  then obtain e where "fetch_soup env (get_page_url self page) = Inl e"
    using fetch_soup_fails by blast
  then show "scrape_page env self page evs = ([], evs @ [Requested (get_page_url self page)])"
    by (simp add: scrape_page_eq page_records_eq)
next
  assume "extract_item_data env item_card = None"
  then show "page_results env (before @ item_card # after)
      = page_results env before @ page_results env after"
    by (simp add: page_results_append)
next
  fix e
  assume run: "fst (scrape_multiple_pages env self max_pages evs) = Inl e"
  obtain out evs' where loop: "pages_loop env self max_pages [1..max_pages] [] evs = (out, evs')"
    by (cases "pages_loop env self max_pages [1..max_pages] [] evs")
  with run have "out = Inl e"
    by (cases out) (simp_all add: scrape_multiple_pages_def)
  with loop show "time_sleep env (delay self) = Inl e"
    using pages_loop_error by blast
qed

theorem failures_contained_witness:
  "session_get demo_env (get_page_url demo_scraper 2) = Inr \<lparr>status_code = 404, content = []\<rparr>
   \<and> scrape_page demo_env demo_scraper 2 [] = ([], [Requested (default_base_url @ py ''?page=2'')])
   \<and> extract_item_data demo_env card_bad_link = None
   \<and> page_results demo_env ([card_full] @ card_bad_link # [card_untitled]) = [listing_full]
   \<and> fst (scrape_multiple_pages demo_env demo_scraper 3 []) = Inr [listing_full]
   \<and> fst (scrape_multiple_pages demo_env hasty_scraper 2 []) = Inl ValueError
   \<and> time_sleep demo_env (delay hasty_scraper) = Inl ValueError"
proof -
  have refused: "(\<exists>e. session_get demo_env (get_page_url demo_scraper 2) = Inl e)
      \<or> (\<exists>resp. session_get demo_env (get_page_url demo_scraper 2) = Inr resp
            \<and> ((400 \<le> status_code resp \<and> status_code resp < 600)
                \<or> (\<exists>e. html_parser demo_env (content resp) = Inl e)))"
    by (simp add: demo_status)
  from failures_contained [of demo_env demo_scraper 2 "[]"] refused
  have "scrape_page demo_env demo_scraper 2 [] = ([], [] @ [Requested (get_page_url demo_scraper 2)])"
    by blast
  then have page: "scrape_page demo_env demo_scraper 2 []
      = ([], [Requested (default_base_url @ py ''?page=2'')])"
    by (simp add: demo_urls)
  from failures_contained [of demo_env _ _ _ card_bad_link "[card_full]" "[card_untitled]"]
    demo_extract_bad_link
  have "page_results demo_env ([card_full] @ card_bad_link # [card_untitled])
      = page_results demo_env [card_full] @ page_results demo_env [card_untitled]"
    by blast
  then have item: "page_results demo_env ([card_full] @ card_bad_link # [card_untitled]) = [listing_full]"
    by (simp add: ex_full ex_untitled full_title) (simp add: listing_untitled_def)
  from failures_contained [of demo_env hasty_scraper _ "[]" _ _ _ 2] run_hasty
  have slept: "time_sleep demo_env (delay hasty_scraper) = Inl ValueError"
    by blast
  from page item slept demo_status demo_extract_bad_link run3 run_hasty show ?thesis
    by (intro conjI)
qed

text \<open>
  Claim C7 as stated fails for a status that is neither a success nor an error for
  \<open>raise_for_status\<close>: page 4 of the sample site answers 302 with the body of page 1,
  nothing is raised, the body is parsed, and \<open>scrape_page\<close> returns its record.
\<close>

theorem redirect_status_counterexample:
  "session_get demo_env (get_page_url demo_scraper 4) = Inr \<lparr>status_code = 302, content = [1]\<rparr>
   \<and> \<not> spec_success_status 302
   \<and> scrape_page demo_env demo_scraper 4 [] =
        ([listing_full], [Requested (default_base_url @ py ''?page=4'')])
   \<and> title listing_full = py ''Car body cover''"
proof -
  have "\<not> spec_success_status 302"
    by (simp add: spec_success_status_def)
  moreover have "scrape_page demo_env demo_scraper 4 [] =
      ([listing_full], [Requested (default_base_url @ py ''?page=4'')])"
    by (simp add: scrape_page_eq demo_page_four demo_redirect)
  moreover have "title listing_full = py ''Car body cover''"
    by (simp add: listing_full_def)
  ultimately show ?thesis
    by (simp only: demo_redirect) simp
qed

text \<open>
  Claim C8. With an empty \<open>results\<close>, \<open>save_to_csv\<close> and \<open>save_to_json\<close> return \<open>None\<close>,
  raise nothing and leave the file system as it was.
\<close>

theorem export_empty:
  assumes "results self = []"
  shows "save_to_csv self csv_name fs = Inr (None, fs)
       \<and> save_to_json self json_name fs = Inr (None, fs)"
  using assms by (simp add: save_to_csv_def save_to_json_def)

theorem export_empty_witness:
  "results demo_scraper = []
   \<and> save_to_csv demo_scraper (py ''olx_car_covers.csv'') Map.empty = Inr (None, Map.empty)
   \<and> save_to_json demo_scraper (py ''olx_car_covers.json'') Map.empty = Inr (None, Map.empty)"
proof -
  have empty: "results demo_scraper = []"
    by (simp add: demo_scraper_def init_scraper_def)
  with export_empty [OF empty] show ?thesis by simp
qed

text \<open>
  Claim C9. A record of \<open>extract_item_data\<close> has the five fields of \<open>listing\<close>, none of
  them empty. A field whose extracted value is the empty string is \<open>N/A\<close>. When the first
  title selector that finds an element finds one whose stripped text is empty, the title
  is \<open>N/A\<close> and \<open>scrape_page\<close> drops the record.
\<close>

theorem record_fields:
  assumes "extract_item_data env item_card = Some r"
  shows "title r \<noteq> [] \<and> price r \<noteq> [] \<and> location r \<noteq> [] \<and> url r \<noteq> [] \<and> image_url r \<noteq> []
       \<and> (first_text env item_card title_selectors = Some [] \<longrightarrow> title r = sentinel)
       \<and> (first_price env item_card price_selectors = Some [] \<longrightarrow> price r = sentinel)
       \<and> (first_text env item_card location_selectors = Some [] \<longrightarrow> location r = sentinel)
       \<and> (extract_url env item_card = Inr (Some []) \<longrightarrow> url r = sentinel)
       \<and> ((\<exists>img_elem. find_img item_card = Some img_elem \<and> get_attr img_elem (py ''src'') = Some [])
            \<longrightarrow> image_url r = sentinel)
       \<and> (\<forall>i<length title_selectors. \<forall>el.
             (\<forall>j<i. select_one env item_card (title_selectors ! j) = None)
             \<and> select_one env item_card (title_selectors ! i) = Some el
             \<and> get_text_strip el = []
             \<longrightarrow> title r = sentinel \<and> page_results env [item_card] = [])"
proof -
  from assms obtain u where u: "extract_url env item_card = Inr u"
    and r: "r = \<lparr>title = or_sentinel (first_text env item_card title_selectors),
                price = or_sentinel (first_price env item_card price_selectors),
                location = or_sentinel (first_text env item_card location_selectors),
                url = or_sentinel u,
                image_url = or_sentinel (extract_image_url item_card)\<rparr>"
    by (auto simp add: extract_url_cases split: sum.splits)
  have nonempty: "title r \<noteq> [] \<and> price r \<noteq> [] \<and> location r \<noteq> [] \<and> url r \<noteq> [] \<and> image_url r \<noteq> []"
    by (simp add: r or_sentinel_nonempty)
  have empties: "(first_text env item_card title_selectors = Some [] \<longrightarrow> title r = sentinel)
       \<and> (first_price env item_card price_selectors = Some [] \<longrightarrow> price r = sentinel)
       \<and> (first_text env item_card location_selectors = Some [] \<longrightarrow> location r = sentinel)
       \<and> (extract_url env item_card = Inr (Some []) \<longrightarrow> url r = sentinel)"
    using u by (auto simp add: r or_sentinel_def)
  have image: "image_url r = sentinel"
    if "\<exists>img_elem. find_img item_card = Some img_elem \<and> get_attr img_elem (py ''src'') = Some []"
    using that by (auto simp add: r or_sentinel_def extract_image_url_def)
  have blank: "title r = sentinel \<and> page_results env [item_card] = []"
    if i: "i < length title_selectors"
      and before: "\<forall>j<i. select_one env item_card (title_selectors ! j) = None"
      and here: "select_one env item_card (title_selectors ! i) = Some el"
      and notext: "get_text_strip el = []" for i el
  proof -
    from i have split: "title_selectors =
        take i title_selectors @ title_selectors ! i # drop (Suc i) title_selectors"
      by (rule id_take_nth_drop)
    from before i have "\<forall>s \<in> set (take i title_selectors). select_one env item_card s = None"
      by (auto dest: in_set_take_nth)
    then have "first_text env item_card
          (take i title_selectors @ title_selectors ! i # drop (Suc i) title_selectors)
        = Some (get_text_strip el)"
      using here by (rule first_text_at)
    with split notext have "first_text env item_card title_selectors = Some []"
      by simp
    then have "title r = sentinel"
      by (simp add: r or_sentinel_def)
    with assms show ?thesis by simp
  qed
  from nonempty empties image blank show ?thesis by blast
qed

theorem record_fields_witness:
  "extract_item_data demo_env card_blank_title = Some listing_blank
   \<and> select_one demo_env card_blank_title (title_selectors ! 0) = Some (tag ''h6'' [] [Text (py ''  '')])
   \<and> get_text_strip (tag ''h6'' [] [Text (py ''  '')]) = []
   \<and> title listing_blank = sentinel
   \<and> page_results demo_env [card_blank_title] = []
   \<and> title listing_blank \<noteq> [] \<and> price listing_blank \<noteq> [] \<and> location listing_blank \<noteq> []
   \<and> url listing_blank \<noteq> [] \<and> image_url listing_blank \<noteq> []
   \<and> extract_item_data demo_env card_full = Some listing_full
   \<and> title listing_full \<noteq> [] \<and> price listing_full \<noteq> [] \<and> location listing_full \<noteq> []
   \<and> url listing_full \<noteq> [] \<and> image_url listing_full \<noteq> []"
proof -
  have len: "0 < length title_selectors"
    by (simp add: title_selectors_def)
  have none_before: "\<forall>j<0. select_one demo_env card_blank_title (title_selectors ! j) = None"
    by simp
  from record_fields [OF ex_blank] len none_before demo_blank_h6
  have dropped: "title listing_blank = sentinel \<and> page_results demo_env [card_blank_title] = []"
    by blast
  from record_fields [OF ex_blank]
  have blank: "title listing_blank \<noteq> [] \<and> price listing_blank \<noteq> [] \<and> location listing_blank \<noteq> []
      \<and> url listing_blank \<noteq> [] \<and> image_url listing_blank \<noteq> []"
    by blast
  from record_fields [OF ex_full]
  have full: "title listing_full \<noteq> [] \<and> price listing_full \<noteq> [] \<and> location listing_full \<noteq> []
      \<and> url listing_full \<noteq> [] \<and> image_url listing_full \<noteq> []"
    by blast
  from dropped blank full ex_blank ex_full demo_blank_h6 show ?thesis
    by blast
qed

text \<open>
  Claim C10. For a fixed base URL, page numbers from 1 on that differ have URLs that
  differ; and the URL of page 1 is a proper prefix of the URL of every later page.
\<close>

theorem get_page_url_inj:
  "inj_on (get_page_url self) {1..} \<and>
   (\<forall>k>1. \<exists>suffix. suffix \<noteq> [] \<and> get_page_url self k = get_page_url self 1 @ suffix)"
proof
  show "inj_on (get_page_url self) {1..}"
  proof (rule inj_onI)
    fix j k :: int
    assume j: "j \<in> {1..}" and k: "k \<in> {1..}"
      and eq: "get_page_url self j = get_page_url self k"
    have tail: "py ''?page='' @ str_int n \<noteq> []" for n
      by (simp add: py_def)
    show "j = k"
    proof (cases "j = 1")
      case True
      with eq tail [of k] show ?thesis
        by (cases "k = 1") (simp_all add: get_page_url_def)
    next
      case False
      show ?thesis
      proof (cases "k = 1")
        case True
        with eq False tail [of j] show ?thesis
          by (simp add: get_page_url_def)
      next
        case k1: False
        with False eq have "str_int j = str_int k"
          by (simp add: get_page_url_def)
        with j k show ?thesis
          by (intro str_int_inj_nonneg) simp_all
      qed
    qed
  qed
next
  show "\<forall>k>1. \<exists>suffix. suffix \<noteq> [] \<and> get_page_url self k = get_page_url self 1 @ suffix"
    by (simp add: get_page_url_def py_def)
qed

theorem get_page_url_inj_witness:
  "get_page_url demo_scraper 2 \<noteq> get_page_url demo_scraper 3
   \<and> get_page_url demo_scraper 1 \<noteq> get_page_url demo_scraper 2
   \<and> get_page_url demo_scraper 2 = get_page_url demo_scraper 1 @ py ''?page=2''"
proof -
  from get_page_url_inj [of demo_scraper] have inj: "inj_on (get_page_url demo_scraper) {1..}"
    by (rule conjunct1)
  have "get_page_url demo_scraper 2 \<noteq> get_page_url demo_scraper 3"
  proof
    assume "get_page_url demo_scraper 2 = get_page_url demo_scraper 3"
    with inj have "(2::int) = 3"
      by (rule inj_onD) simp_all
    then show False by simp
  qed
  moreover have "get_page_url demo_scraper 1 \<noteq> get_page_url demo_scraper 2"
  proof
    assume "get_page_url demo_scraper 1 = get_page_url demo_scraper 2"
    with inj have "(1::int) = 2"
      by (rule inj_onD) simp_all
    then show False by simp
  qed
  moreover have "get_page_url demo_scraper 2 = get_page_url demo_scraper 1 @ py ''?page=2''"
    by (simp add: demo_urls)
  ultimately show ?thesis
    by (intro conjI)
qed

end
